theory Spec2Isabelle
  imports Complex_Main "HOL-Library.AList"
begin


section \<open>JavaScript values\<close>

text \<open>
  The store is untyped JavaScript: configuration objects, connection handles and server
  replies are arbitrary values, which the code tests with \<^verbatim>\<open>||\<close>, \<^verbatim>\<open>!\<close>, \<^verbatim>\<open>?.\<close> and
  \<^verbatim>\<open>===\<close>. A value is \<^verbatim>\<open>undefined\<close>, \<^verbatim>\<open>null\<close>, a boolean, a (finite) number, a string,
  an array, a plain object (a finite map from property names to values; the order of the
  properties is never observed by the store) or a built-in of \<^verbatim>\<open>Object.prototype\<close>, which
  a lookup in an object literal reaches through the prototype chain.
\<close>

datatype jsval =
    JUndefined
  | JNull
  | JBool bool
  | JNum real
  | JStr string
  | JArr "jsval list"
  | JObj "string \<Rightarrow> jsval option"
  | JBuiltin string

text \<open>The falsy values are \<^verbatim>\<open>undefined\<close>, \<^verbatim>\<open>null\<close>, \<^verbatim>\<open>false\<close>, \<^verbatim>\<open>0\<close> and \<^verbatim>\<open>''\<close>.\<close>

fun truthy :: "jsval \<Rightarrow> bool" where
  "truthy JUndefined = False"
| "truthy JNull = False"
| "truthy (JBool b) = b"
| "truthy (JNum r) = (r \<noteq> 0)"
| "truthy (JStr s) = (s \<noteq> [])"
| "truthy (JArr xs) = True"
| "truthy (JObj m) = True"
| "truthy (JBuiltin f) = True"

text \<open>\<^verbatim>\<open>a || b\<close>\<close>

definition js_or :: "jsval \<Rightarrow> jsval \<Rightarrow> jsval" where
  "js_or a b = (if truthy a then a else b)"

text \<open>
  \<^verbatim>\<open>a === b\<close>: equality of primitives; two objects or arrays are equal only when they are
  the same reference, which two separately built values never are.
\<close>

fun strict_eq :: "jsval \<Rightarrow> jsval \<Rightarrow> bool" where
  "strict_eq (JObj m) b = False"
| "strict_eq (JArr xs) b = False"
| "strict_eq a b = (a = b)"

text \<open>\<^verbatim>\<open>v === 'literal'\<close>\<close>

definition is_str :: "jsval \<Rightarrow> string \<Rightarrow> bool" where
  "is_str v s = strict_eq v (JStr s)"

definition nullish :: "jsval \<Rightarrow> bool" where
  "nullish v = (v = JUndefined \<or> v = JNull)"

text \<open>Decimal rendering of a natural number, as a template literal prints it.\<close>

fun dec :: "nat \<Rightarrow> string" where
  "dec n = (if n < 10 then [''0123456789'' ! n]
            else dec (n div 10) @ [''0123456789'' ! (n mod 10)])"

text \<open>
  \<^verbatim>\<open>o[k]\<close> of an object known to be one, \<^verbatim>\<open>undefined\<close> when the property is missing.
\<close>

definition get :: "(string \<Rightarrow> jsval option) \<Rightarrow> string \<Rightarrow> jsval" where
  "get m k = (case m k of None \<Rightarrow> JUndefined | Some v \<Rightarrow> v)"

text \<open>
  \<^verbatim>\<open>v?.k\<close> for the property names the store reads (\<^verbatim>\<open>config\<close>, \<^verbatim>\<open>apiKey\<close>, \<^verbatim>\<open>serpApiKey\<close>,
  \<^verbatim>\<open>query\<close>, \<^verbatim>\<open>result\<close>, \<^verbatim>\<open>stack_id\<close>): none of them is defined by a primitive wrapper, by
  \<^verbatim>\<open>Array.prototype\<close> or by \<^verbatim>\<open>Object.prototype\<close>, so everything but an object that owns the
  property gives \<^verbatim>\<open>undefined\<close>. The unguarded \<^verbatim>\<open>v.k\<close> is the same on every value but
  \<^verbatim>\<open>undefined\<close> and \<^verbatim>\<open>null\<close>, where it throws; the callers test \<open>nullish\<close> first.
\<close>

fun js_prop :: "jsval \<Rightarrow> string \<Rightarrow> jsval" where
  "js_prop (JObj m) k = get m k"
| "js_prop v k = JUndefined"

text \<open>
  Object spread \<^verbatim>\<open>{...v}\<close>: the own enumerable properties of \<open>v\<close>. An object gives its
  properties, a string or an array its elements under their indices, anything else
  nothing.
\<close>

definition indexed :: "jsval list \<Rightarrow> (string \<Rightarrow> jsval option)" where
  "indexed xs = map_of (zip (map dec [0..<length xs]) xs)"

fun spread :: "jsval \<Rightarrow> (string \<Rightarrow> jsval option)" where
  "spread (JObj m) = m"
| "spread (JStr s) = indexed (map (\<lambda>c. JStr [c]) s)"
| "spread (JArr xs) = indexed xs"
| "spread v = Map.empty"

text \<open>
  What \<^verbatim>\<open>JSON.parse(JSON.stringify(v))\<close> gives: a property whose value is \<^verbatim>\<open>undefined\<close> or
  a function is left out of an object and becomes \<^verbatim>\<open>null\<close> in an array.
  \<^verbatim>\<open>Object.prototype\<close> itself (the built-in under \<^verbatim>\<open>__proto__\<close>) is an object without own
  enumerable properties.
\<close>

fun dropped :: "jsval \<Rightarrow> bool" where
  "dropped JUndefined = True"
| "dropped (JBuiltin f) = True"
| "dropped v = False"

definition keep :: "(string \<Rightarrow> jsval option) \<Rightarrow> (string \<Rightarrow> jsval option)" where
  "keep m = (\<lambda>k. case m k of None \<Rightarrow> None | Some v \<Rightarrow> if dropped v then None else Some v)"

primrec toJSON :: "jsval \<Rightarrow> jsval" where
  "toJSON JUndefined = JUndefined"
| "toJSON JNull = JNull"
| "toJSON (JBool b) = JBool b"
| "toJSON (JNum r) = JNum r"
| "toJSON (JStr s) = JStr s"
| "toJSON (JArr xs) = JArr (map (\<lambda>v. if dropped v then JNull else v) (map toJSON xs))"
| "toJSON (JObj m) = JObj (keep (map_option toJSON \<circ> m))"
| "toJSON (JBuiltin f) = (if f = ''__proto__'' then JObj Map.empty else JBuiltin f)"

text \<open>A member of an object literal after serialisation: left out when dropped.\<close>

definition member :: "jsval \<Rightarrow> jsval" where
  "member v = (let w = toJSON v in if dropped w then JUndefined else w)"

section \<open>The graph: nodes, edges and the store\<close>

text \<open>
  A node of the editor (\<^verbatim>\<open>Node<NodeData>\<close> of the flow library) and of the wire format: the
  identifier is a string and \<^verbatim>\<open>data\<close> is an object; \<^verbatim>\<open>type\<close> and \<^verbatim>\<open>position\<close> may be
  missing (\<^verbatim>\<open>undefined\<close>). The configuration is the property \<^verbatim>\<open>config\<close> of \<^verbatim>\<open>data\<close>.
  Further properties of a node (selection, size) are never read by the store.
\<close>

record node =
  nid :: string
  ntype :: jsval
  position :: jsval
  data :: "string \<Rightarrow> jsval option"

text \<open>
  An edge, in the editor and on the wire; a missing property is \<^verbatim>\<open>undefined\<close>. On the
  wire \<^verbatim>\<open>animated\<close> and \<^verbatim>\<open>style\<close> are missing.
\<close>

record edge =
  eid :: string
  source :: jsval
  target :: jsval
  sourceHandle :: jsval
  targetHandle :: jsval
  etype :: jsval
  animated :: jsval
  style :: jsval
  edata :: jsval

record store =
  selectedWorkflowId :: jsval
  nodes :: "node list"
  edges :: "edge list"
  workflowName :: jsval
  workflowDescription :: jsval

text \<open>\<^verbatim>\<open>node.data.config\<close>\<close>

definition config :: "node \<Rightarrow> jsval" where
  "config n = get (data n) ''config''"

subsection \<open>\<^verbatim>\<open>removeNode\<close>, \<^verbatim>\<open>removeEdge\<close>, \<^verbatim>\<open>updateNodeConfig\<close>\<close>

definition removeNode :: "string \<Rightarrow> store \<Rightarrow> store" where
  "removeNode nodeId state = state
     \<lparr> nodes := filter (\<lambda>node. nid node \<noteq> nodeId) (nodes state),
       edges := filter (\<lambda>edge. \<not> is_str (source edge) nodeId \<and> \<not> is_str (target edge) nodeId)
                  (edges state) \<rparr>"

definition removeEdge :: "string \<Rightarrow> store \<Rightarrow> store" where
  "removeEdge edgeId state = state \<lparr> edges := filter (\<lambda>edge. eid edge \<noteq> edgeId) (edges state) \<rparr>"

text \<open>
  \<^verbatim>\<open>{ ...node, data: { ...node.data, config: { ...node.data.config, ...newConfig } } }\<close> for
  every node with the identifier; \<open>newConfig\<close> is an object.
\<close>

definition updateNodeConfig :: "string \<Rightarrow> (string \<Rightarrow> jsval option) \<Rightarrow> store \<Rightarrow> store" where
  "updateNodeConfig nodeId newConfig state = state
     \<lparr> nodes := map (\<lambda>node. if nid node = nodeId
                            then node \<lparr> data := (data node)(''config'' \<mapsto>
                                     JObj (spread (config node) ++ newConfig)) \<rparr>
                            else node) (nodes state) \<rparr>"

subsection \<open>\<^verbatim>\<open>determineEdgeName\<close> and \<^verbatim>\<open>onConnect\<close>\<close>

text \<open>
  A connection request of the flow library: each of the four properties is a string or
  \<^verbatim>\<open>null\<close>.
\<close>

record connection =
  c_source :: "string option"
  c_target :: "string option"
  c_sourceHandle :: "string option"
  c_targetHandle :: "string option"

definition of_opt :: "string option \<Rightarrow> jsval" where
  "of_opt x = (case x of None \<Rightarrow> JNull | Some s \<Rightarrow> JStr s)"

text \<open>A string or \<^verbatim>\<open>null\<close> inside a template literal.\<close>

definition shown :: "string option \<Rightarrow> string" where
  "shown x = (case x of None \<Rightarrow> ''null'' | Some s \<Rightarrow> s)"

text \<open>\<^verbatim>\<open>node.data.type === t\<close>\<close>

definition data_type_is :: "node \<Rightarrow> string \<Rightarrow> bool" where
  "data_type_is node t = is_str (get (data node) ''type'') t"

definition determineEdgeName :: "connection \<Rightarrow> node list \<Rightarrow> string" where
  "determineEdgeName connection ns =
     (case (find (\<lambda>node. Some (nid node) = c_source connection) ns,
            find (\<lambda>node. Some (nid node) = c_target connection) ns) of
        (Some sourceNode, Some targetNode) \<Rightarrow>
          if data_type_is sourceNode ''userQueryNode'' then ''Query''
          else if data_type_is targetNode ''knowledgeBaseNode''
                  \<and> c_targetHandle connection = Some ''kb-input'' then ''Query Intake''
          else if data_type_is sourceNode ''knowledgeBaseNode''
                  \<and> c_sourceHandle connection = Some ''kb-output'' then ''Context''
          else if data_type_is targetNode ''llmNode''
                  \<and> c_targetHandle connection = Some ''context-input'' then ''Context''
          else if data_type_is targetNode ''llmNode''
                  \<and> c_targetHandle connection = Some ''query-input'' then ''Query''
          else if data_type_is sourceNode ''llmNode''
                  \<and> c_sourceHandle connection = Some ''llm-output'' then ''Answer''
          else if data_type_is targetNode ''outputNode'' then ''Final Output''
          else ''Connection''
      | _ \<Rightarrow> ''Unknown'')"

text \<open>
  \<^verbatim>\<open>addEdge\<close> and its helper \<^verbatim>\<open>connectionExists\<close> are imported from the flow library
  (reactflow 11), not written in this repository. The library's function returns the
  edges unchanged when the source or the target of the new edge is falsy or when an edge
  with the same endpoints and handles exists, and appends the new edge otherwise; an edge
  that already has an identifier keeps it.
\<close>

definition connectionExists :: "edge \<Rightarrow> edge list \<Rightarrow> bool" where
  "connectionExists edge es =
     list_ex (\<lambda>el. strict_eq (source el) (source edge) \<and> strict_eq (target el) (target edge)
        \<and> (if strict_eq (sourceHandle el) (sourceHandle edge) then True
            else \<not> truthy (sourceHandle el) \<and> \<not> truthy (sourceHandle edge))
        \<and> (if strict_eq (targetHandle el) (targetHandle edge) then True
            else \<not> truthy (targetHandle el) \<and> \<not> truthy (targetHandle edge))) es"

definition addEdge :: "edge \<Rightarrow> edge list \<Rightarrow> edge list" where
  "addEdge edgeParams es =
     (if \<not> (truthy (source edgeParams) \<and> truthy (target edgeParams)) then es
      else if connectionExists edgeParams es then es
      else es @ [edgeParams])"

text \<open>
  The object literal \<^verbatim>\<open>newEdge\<close> of \<^verbatim>\<open>onConnect\<close>; \<open>now\<close> is the value of \<^verbatim>\<open>Date.now()\<close>.
\<close>

definition newEdge :: "connection \<Rightarrow> nat \<Rightarrow> string \<Rightarrow> edge" where
  "newEdge connection now edgeName =
     \<lparr> eid = ''e'' @ shown (c_source connection) @ ''-'' @ shown (c_target connection)
               @ ''-'' @ dec now,
       source = of_opt (c_source connection),
       target = of_opt (c_target connection),
       sourceHandle = of_opt (c_sourceHandle connection),
       targetHandle = of_opt (c_targetHandle connection),
       etype = JStr ''smoothstep'',
       animated = JBool True,
       style = JObj [''stroke'' \<mapsto> JStr ''#FF6B6B'', ''strokeWidth'' \<mapsto> JNum 2],
       edata = JObj [''name'' \<mapsto> JStr edgeName] \<rparr>"

definition onConnect :: "connection \<Rightarrow> nat \<Rightarrow> store \<Rightarrow> store" where
  "onConnect connection now state =
     (let edgeName = determineEdgeName connection (nodes state)
      in state \<lparr> edges := addEdge (newEdge connection now edgeName) (edges state) \<rparr>)"

section \<open>Conversion between the editor's lists and the wire's dictionaries\<close>

text \<open>
  \<^verbatim>\<open>typeMapping[type] || type\<close>. The lookup in the object literal finds the table's own
  properties and, through the prototype chain, the members of \<^verbatim>\<open>Object.prototype\<close>. A
  type is a string or missing (\<^verbatim>\<open>Node.type\<close>, \<^verbatim>\<open>NodeData.type\<close>); for \<^verbatim>\<open>undefined\<close>,
  \<^verbatim>\<open>null\<close>, a boolean, a number or a built-in the key is no property of the table, and the
  value passes through. (An array or an object as the type would be coerced through its
  \<^verbatim>\<open>toString\<close>; the model lets it pass through as well, and no theorem below relies on
  that.)
\<close>

definition object_prototype :: "string list" where
  "object_prototype = [''constructor'', ''__defineGetter__'', ''__defineSetter__'',
     ''hasOwnProperty'', ''__lookupGetter__'', ''__lookupSetter__'', ''isPrototypeOf'',
     ''propertyIsEnumerable'', ''toString'', ''valueOf'', ''__proto__'', ''toLocaleString'']"

definition frontend_types :: "(string \<times> string) list" where
  "frontend_types = [(''userQueryNode'', ''userQuery''), (''outputNode'', ''output''),
     (''llmNode'', ''llmEngine''), (''knowledgeBaseNode'', ''knowledgeBase''),
     (''webSearchNode'', ''webSearch'')]"

definition backend_types :: "(string \<times> string) list" where
  "backend_types = [(''userQuery'', ''userQueryNode''), (''output'', ''outputNode''),
     (''llmEngine'', ''llmNode''), (''knowledgeBase'', ''knowledgeBaseNode''),
     (''webSearch'', ''webSearchNode'')]"

definition lookup :: "(string \<times> string) list \<Rightarrow> jsval \<Rightarrow> jsval" where
  "lookup typeMapping t =
     (case t of
        JStr s \<Rightarrow> (case map_of typeMapping s of
                     Some v \<Rightarrow> JStr v
                   | None \<Rightarrow> if s \<in> set object_prototype then JBuiltin s else JUndefined)
      | _ \<Rightarrow> JUndefined)"

definition convertNodeType :: "jsval \<Rightarrow> jsval" where
  "convertNodeType t = js_or (lookup frontend_types t) t"

definition convertBackendNodeType :: "jsval \<Rightarrow> jsval" where
  "convertBackendNodeType t = js_or (lookup backend_types t) t"

text \<open>The object that \<^verbatim>\<open>nodesToDict\<close> stores under \<^verbatim>\<open>node.id\<close>.\<close>

definition wire_node :: "node \<Rightarrow> node" where
  "wire_node node =
     \<lparr> nid = nid node,
       ntype = convertNodeType (js_or (ntype node) (get (data node) ''type'')),
       position = position node,
       data = (data node)
         (''type'' \<mapsto> convertNodeType (js_or (get (data node) ''type'') (ntype node)),
          ''config'' \<mapsto> (if truthy (config node)
                          then JObj ((spread (config node))(''uploadedFile'' \<mapsto> JUndefined))
                          else JObj Map.empty)) \<rparr>"

text \<open>
  A dictionary is an object, whose own properties \<^verbatim>\<open>Object.values\<close> and \<^verbatim>\<open>JSON.stringify\<close>
  enumerate in the language's order: first the keys that are array indices (the decimal
  numeral of a number below \<^verbatim>\<open>2^32 - 1\<close>, without leading zeros) in ascending numeric order,
  then the other keys in the order of their creation. It is an association list in that
  order.
\<close>

definition num :: "string \<Rightarrow> nat" where
  "num s = foldl (\<lambda>a c. 10 * a + (case map_of (zip ''0123456789'' [0..<10]) c of
                                       Some d \<Rightarrow> d | None \<Rightarrow> 0)) 0 s"

definition index_of :: "string \<Rightarrow> nat option" where
  "index_of s =
     (if s \<noteq> [] \<and> list_all (\<lambda>c. c \<in> set ''0123456789'') s \<and> dec (num s) = s
         \<and> num s < 4294967295
      then Some (num s) else None)"

text \<open>The place of a new array-index key: after the smaller indices, before everything else.\<close>

fun insert_index :: "nat \<Rightarrow> string \<times> 'a \<Rightarrow> (string \<times> 'a) list \<Rightarrow> (string \<times> 'a) list" where
  "insert_index n kv [] = [kv]"
| "insert_index n kv (e # d) =
     (case index_of (fst e) of
        Some m \<Rightarrow> if m < n then e # insert_index n kv d else kv # e # d
      | None \<Rightarrow> kv # e # d)"

text \<open>
  The assignment \<^verbatim>\<open>dict[k] = v\<close> to an object created by \<^verbatim>\<open>{}\<close>, for an object \<open>v\<close>. The key
  \<^verbatim>\<open>__proto__\<close> is the accessor of \<^verbatim>\<open>Object.prototype\<close>: assigning to it replaces the prototype
  of the dictionary and creates no property. A key that exists keeps its place and gets
  the new value; a new key is created at its place in the order.
\<close>

definition assign :: "string \<Rightarrow> 'a \<Rightarrow> (string \<times> 'a) list \<Rightarrow> (string \<times> 'a) list" where
  "assign k v d =
     (if k = ''__proto__'' then d
      else if map_of d k \<noteq> None then AList.update k v d
      else (case index_of k of
              Some n \<Rightarrow> insert_index n (k, v) d
            | None \<Rightarrow> d @ [(k, v)]))"

definition nodesToDict :: "node list \<Rightarrow> (string \<times> node) list" where
  "nodesToDict ns =
     fold (\<lambda>node nodesDict. assign (nid node) (wire_node node) nodesDict) ns []"

definition wire_edge :: "edge \<Rightarrow> edge" where
  "wire_edge edge =
     \<lparr> eid = eid edge,
       source = source edge,
       target = target edge,
       sourceHandle = js_or (sourceHandle edge) JNull,
       targetHandle = js_or (targetHandle edge) JNull,
       etype = js_or (etype edge) (JStr ''smoothstep''),
       animated = JUndefined,
       style = JUndefined,
       edata = js_or (edata edge) (JObj Map.empty) \<rparr>"

definition edgesToDict :: "edge list \<Rightarrow> (string \<times> edge) list" where
  "edgesToDict es =
     fold (\<lambda>edge edgesDict. assign (eid edge) (wire_edge edge) edgesDict) es []"

text \<open>
  \<^verbatim>\<open>dictToNodes\<close> and \<^verbatim>\<open>dictToEdges\<close>; \<open>None\<close> is a dictionary that is missing, \<^verbatim>\<open>null\<close> or
  not an object.
\<close>

definition editor_node :: "node \<Rightarrow> node" where
  "editor_node node =
     \<lparr> nid = nid node,
       ntype = convertBackendNodeType (ntype node),
       position = js_or (position node) (JObj [''x'' \<mapsto> JNum 0, ''y'' \<mapsto> JNum 0]),
       data = (data node)
         (''type'' \<mapsto> convertBackendNodeType (js_or (ntype node) (get (data node) ''type''))) \<rparr>"

definition dictToNodes :: "(string \<times> node) list option \<Rightarrow> node list" where
  "dictToNodes nodesDict =
     (case nodesDict of None \<Rightarrow> [] | Some d \<Rightarrow> map (\<lambda>(k, node). editor_node node) d)"

definition editor_edge :: "edge \<Rightarrow> edge" where
  "editor_edge edge =
     \<lparr> eid = eid edge,
       source = source edge,
       target = target edge,
       sourceHandle = sourceHandle edge,
       targetHandle = targetHandle edge,
       etype = js_or (etype edge) (JStr ''smoothstep''),
       animated = JBool True,
       style = JObj [''stroke'' \<mapsto> JStr ''#FF6B6B'', ''strokeWidth'' \<mapsto> JNum 2],
       edata = js_or (edata edge) (JObj Map.empty) \<rparr>"

definition dictToEdges :: "(string \<times> edge) list option \<Rightarrow> edge list" where
  "dictToEdges edgesDict =
     (case edgesDict of None \<Rightarrow> [] | Some d \<Rightarrow> map (\<lambda>(k, edge). editor_edge edge) d)"

text \<open>
  The dictionaries as they travel (\<^verbatim>\<open>JSON.stringify\<close> of the payload): every member is
  serialised, and a member that is \<^verbatim>\<open>undefined\<close> is left out.
\<close>

definition node_json :: "node \<Rightarrow> node" where
  "node_json n = \<lparr> nid = nid n, ntype = member (ntype n), position = member (position n),
                   data = keep (map_option toJSON \<circ> data n) \<rparr>"

definition edge_json :: "edge \<Rightarrow> edge" where
  "edge_json e = \<lparr> eid = eid e, source = member (source e), target = member (target e),
                   sourceHandle = member (sourceHandle e), targetHandle = member (targetHandle e),
                   etype = member (etype e), animated = member (animated e),
                   style = member (style e), edata = member (edata e) \<rparr>"

definition nodes_json :: "(string \<times> node) list \<Rightarrow> (string \<times> node) list" where
  "nodes_json d = map (\<lambda>(k, n). (k, node_json n)) d"

definition edges_json :: "(string \<times> edge) list \<Rightarrow> (string \<times> edge) list" where
  "edges_json d = map (\<lambda>(k, e). (k, edge_json e)) d"

section \<open>The secrets bundle\<close>

text \<open>The accumulator \<^verbatim>\<open>apiKeys\<close> and the result \<^verbatim>\<open>filteredApiKeys\<close> of \<^verbatim>\<open>extractApiKeys\<close>.\<close>

record apiKeys =
  k_llm :: jsval
  k_knowledge :: jsval
  k_websearch :: jsval

record secrets =
  llm :: "jsval option"
  knowledge :: "jsval option"
  websearch :: "jsval option"

text \<open>\<^verbatim>\<open>node.data.type === t || node.type === t\<close>\<close>

definition has_type :: "node \<Rightarrow> string \<Rightarrow> bool" where
  "has_type node t = (data_type_is node t \<or> is_str (ntype node) t)"

text \<open>The body of the \<^verbatim>\<open>forEach\<close>.\<close>

definition collect :: "node \<Rightarrow> apiKeys \<Rightarrow> apiKeys" where
  "collect node keys =
     (if truthy (config node) then
        (let cfg = config node;
             keys1 = (if has_type node ''llmNode'' \<and> truthy (js_prop cfg ''apiKey'')
                      then keys \<lparr> k_llm := js_prop cfg ''apiKey'' \<rparr> else keys);
             keys2 = (if has_type node ''knowledgeBaseNode'' \<and> truthy (js_prop cfg ''apiKey'')
                      then keys1 \<lparr> k_knowledge := js_prop cfg ''apiKey'' \<rparr> else keys1)
         in if (has_type node ''llmNode'' \<and> truthy (js_prop cfg ''serpApiKey''))
               \<or> (has_type node ''webSearchNode'' \<and> truthy (js_prop cfg ''serpApiKey''))
            then keys2 \<lparr> k_websearch := js_prop cfg ''serpApiKey'' \<rparr> else keys2)
      else keys)"

text \<open>\<^verbatim>\<open>if (apiKeys.f) filteredApiKeys.f = apiKeys.f\<close>\<close>

definition present :: "jsval \<Rightarrow> jsval option" where
  "present v = (if truthy v then Some v else None)"

definition extractApiKeys :: "node list \<Rightarrow> secrets" where
  "extractApiKeys ns =
     (let keys = fold collect ns
                   \<lparr> k_llm = JStr [], k_knowledge = JStr [], k_websearch = JStr [] \<rparr>
      in \<lparr> llm = present (k_llm keys), knowledge = present (k_knowledge keys),
           websearch = present (k_websearch keys) \<rparr>)"

text \<open>
  The credential a single node offers for each field of the bundle (\<^verbatim>\<open>undefined\<close> when
  the node is of another kind or has no configuration).
\<close>

definition llm_key :: "node \<Rightarrow> jsval" where
  "llm_key n = (if truthy (config n) \<and> has_type n ''llmNode''
                then js_prop (config n) ''apiKey'' else JUndefined)"

definition knowledge_key :: "node \<Rightarrow> jsval" where
  "knowledge_key n = (if truthy (config n) \<and> has_type n ''knowledgeBaseNode''
                      then js_prop (config n) ''apiKey'' else JUndefined)"

definition websearch_key :: "node \<Rightarrow> jsval" where
  "websearch_key n =
     (if truthy (config n) \<and> (has_type n ''llmNode'' \<or> has_type n ''webSearchNode'')
      then js_prop (config n) ''serpApiKey'' else JUndefined)"

text \<open>A credential as the configuration forms hold it: a string, or missing.\<close>

definition string_or_missing :: "jsval \<Rightarrow> bool" where
  "string_or_missing v = (case v of JStr s \<Rightarrow> True | JUndefined \<Rightarrow> True | _ \<Rightarrow> False)"

section \<open>The network and the orchestration\<close>

text \<open>
  The three requests of the store, with the payload each one carries. A reply is what
  \<^verbatim>\<open>fetch\<close> settles with: a rejection (transport error, with the error's message) or a
  response with its status, its body as text and what \<^verbatim>\<open>response.json()\<close> gives for it
  (the message of the syntax error, or the parsed value). The server is a parameter of
  every operation: a function from the request's payload to the reply.
\<close>

record save_payload =
  p_stack_id :: jsval
  p_nodes :: "(string \<times> node) list"
  p_edges :: "(string \<times> edge) list"
  p_api_keys :: "secrets option"

record execute_payload =
  x_stack_id :: jsval
  x_query :: jsval

datatype request =
    PostWorkflow save_payload
  | PostExecute execute_payload
  | GetWorkflow string

datatype 'a reply =
    Rejected string
  | Responded nat string "string + 'a"

text \<open>
  The body of a loaded workflow, as far as \<^verbatim>\<open>loadWorkflow\<close> reads it; a dictionary that is
  missing or not an object is \<open>None\<close>. The reply to a load carries \<open>None\<close> for the JSON
  value \<^verbatim>\<open>null\<close>.
\<close>

record workflow_data =
  w_stack_id :: jsval
  w_nodes :: "(string \<times> node) list option"
  w_edges :: "(string \<times> edge) list option"
  w_name :: jsval
  w_description :: jsval

record network =
  post_workflow :: "save_payload \<Rightarrow> jsval reply"
  post_execute :: "execute_payload \<Rightarrow> jsval reply"
  get_workflow :: "string \<Rightarrow> workflow_data option reply"

text \<open>\<^verbatim>\<open>response.ok\<close>\<close>

definition ok :: "nat \<Rightarrow> bool" where
  "ok status = (200 \<le> status \<and> status \<le> 299)"

text \<open>
  The message of the \<^verbatim>\<open>TypeError\<close> that reading a property of \<^verbatim>\<open>null\<close> throws (the wording
  is the engine's; here V8's).
\<close>

definition cannot_read :: "string \<Rightarrow> string" where
  "cannot_read k = ''Cannot read properties of null (reading '' @ [CHR 0x27] @ k @ [CHR 0x27] @ '')''"

subsection \<open>\<^verbatim>\<open>saveWorkflow\<close>\<close>

text \<open>The object literal \<^verbatim>\<open>payload\<close>; \<^verbatim>\<open>Object.keys(apiKeys).length > 0 ? apiKeys : null\<close>.\<close>

definition savePayload :: "jsval \<Rightarrow> store \<Rightarrow> save_payload" where
  "savePayload workflowId state =
     (let keys = extractApiKeys (nodes state)
      in \<lparr> p_stack_id = workflowId,
           p_nodes = nodesToDict (nodes state),
           p_edges = edgesToDict (edges state),
           p_api_keys = (if 0 < length (filter (\<lambda>f. f \<noteq> None) [llm keys, knowledge keys, websearch keys])
                         then Some keys else None) \<rparr>)"

text \<open>
  The result is the thrown error's message (\<open>Inl\<close>) or the returned value, together with
  the state afterwards and the requests issued, in order.
\<close>

definition saveWorkflow :: "network \<Rightarrow> store \<Rightarrow> (string + jsval) \<times> store \<times> request list" where
  "saveWorkflow net state =
     (let workflowId = selectedWorkflowId state in
      if \<not> truthy workflowId then (Inl ''No workflow ID available'', state, [])
      else
        let payload = savePayload workflowId state in
        case post_workflow net payload of
          Rejected msg \<Rightarrow> (Inl msg, state, [PostWorkflow payload])
        | Responded status errorText body \<Rightarrow>
            if \<not> ok status
            then (Inl (''Failed to save workflow: '' @ dec status @ '' '' @ errorText),
                  state, [PostWorkflow payload])
            else
              (case body of
                 Inl msg \<Rightarrow> (Inl msg, state, [PostWorkflow payload])
               | Inr result \<Rightarrow>
                   if nullish result
                   then (Inl (cannot_read ''stack_id''), state, [PostWorkflow payload])
                   else if truthy (js_prop result ''stack_id'')
                           \<and> \<not> strict_eq (js_prop result ''stack_id'') workflowId
                   then (Inr result,
                         state \<lparr> selectedWorkflowId := js_prop result ''stack_id'' \<rparr>,
                         [PostWorkflow payload])
                   else (Inr result, state, [PostWorkflow payload])))"

subsection \<open>\<^verbatim>\<open>loadWorkflow\<close>\<close>

text \<open>
  The identifier comes from the route: a string, or \<open>None\<close> when there is none. The result
  is the returned boolean, the state afterwards and the requests issued; \<^verbatim>\<open>loadWorkflow\<close>
  catches every error.
\<close>

definition emptyWorkflow :: "jsval \<Rightarrow> store \<Rightarrow> store" where
  "emptyWorkflow workflowId state = state
     \<lparr> selectedWorkflowId := workflowId, nodes := [], edges := [],
       workflowName := JStr [], workflowDescription := JStr [] \<rparr>"

text \<open>The identifier as the value it is in the program.\<close>

definition of_id :: "string option \<Rightarrow> jsval" where
  "of_id x = (case x of None \<Rightarrow> JUndefined | Some s \<Rightarrow> JStr s)"

definition loadWorkflow :: "network \<Rightarrow> string option \<Rightarrow> store \<Rightarrow> bool \<times> store \<times> request list" where
  "loadWorkflow net workflowId state =
     (case workflowId of
        None \<Rightarrow> (True, state \<lparr> selectedWorkflowId := of_id workflowId \<rparr>, [])
      | Some w \<Rightarrow>
          if w = [] \<or> w = ''new'' \<or> take 5 w = ''temp_''
          then (True, state \<lparr> selectedWorkflowId := of_id workflowId \<rparr>, [])
          else
            (case get_workflow net w of
               Rejected msg \<Rightarrow> (False, emptyWorkflow (JStr w) state, [GetWorkflow w])
             | Responded status text body \<Rightarrow>
                 if \<not> ok status
                 then (if status = 404
                       then (True, emptyWorkflow (JStr w) state, [GetWorkflow w])
                       else (False, emptyWorkflow (JStr w) state, [GetWorkflow w]))
                 else
                   (case body of
                      Inl msg \<Rightarrow> (False, emptyWorkflow (JStr w) state, [GetWorkflow w])
                    | Inr None \<Rightarrow> (False, emptyWorkflow (JStr w) state, [GetWorkflow w])
                    | Inr (Some d) \<Rightarrow>
                        (True,
                         state \<lparr> selectedWorkflowId := js_or (w_stack_id d) (JStr w),
                                 nodes := dictToNodes (w_nodes d),
                                 edges := dictToEdges (w_edges d),
                                 workflowName := js_or (w_name d) (JStr []),
                                 workflowDescription := js_or (w_description d) (JStr []) \<rparr>,
                         [GetWorkflow w]))))"

subsection \<open>\<^verbatim>\<open>saveAndExecuteWorkflow\<close>\<close>

text \<open>The object returned from the \<^verbatim>\<open>catch\<close> block, and the one returned on success.\<close>

definition failure :: "string \<Rightarrow> jsval" where
  "failure msg = JObj [''success'' \<mapsto> JBool False, ''error'' \<mapsto> JStr msg,
     ''message'' \<mapsto> JStr (''Failed to save and execute workflow: '' @ msg)]"

definition succeeded :: "jsval \<Rightarrow> jsval \<Rightarrow> jsval" where
  "succeeded saveResult executeResult = JObj [''success'' \<mapsto> JBool True,
     ''saveResult'' \<mapsto> saveResult, ''executeResult'' \<mapsto> executeResult,
     ''message'' \<mapsto> JStr ''Workflow saved and executed successfully'']"

text \<open>
  The update of the output node. \<open>state\<close> is the snapshot taken by \<^verbatim>\<open>get()\<close> when the
  operation started (its node list is searched), \<open>current\<close> the state the update applies
  to.
\<close>

definition writeResult :: "jsval \<Rightarrow> store \<Rightarrow> store \<Rightarrow> store" where
  "writeResult executeResult state current =
     (if truthy (js_prop executeResult ''result'') then
        (case find (\<lambda>node. is_str (ntype node) ''outputNode'') (nodes state) of
           None \<Rightarrow> current
         | Some outputNode \<Rightarrow>
             updateNodeConfig (nid outputNode)
               [''output'' \<mapsto> js_prop executeResult ''result''] current)
      else current)"

definition saveAndExecuteWorkflow ::
    "network \<Rightarrow> jsval \<Rightarrow> store \<Rightarrow> jsval \<times> store \<times> request list" where
  "saveAndExecuteWorkflow net userQuery state =
     (case saveWorkflow net state of
        (Inl msg, state1, reqs) \<Rightarrow> (failure msg, state1, reqs)
      | (Inr saveResult, state1, reqs) \<Rightarrow>
          if \<not> truthy saveResult then (failure ''Failed to save workflow'', state1, reqs)
          else
            let workflowId = selectedWorkflowId state in
            if \<not> truthy workflowId
            then (failure ''No workflow ID available for execution'', state1, reqs)
            else
              let executePayload = \<lparr> x_stack_id = workflowId, x_query = userQuery \<rparr> in
              case post_execute net executePayload of
                Rejected msg \<Rightarrow> (failure msg, state1, reqs @ [PostExecute executePayload])
              | Responded status errorText body \<Rightarrow>
                  if \<not> ok status
                  then (failure (''Failed to execute workflow: '' @ dec status @ '' '' @ errorText),
                        state1, reqs @ [PostExecute executePayload])
                  else
                    (case body of
                       Inl msg \<Rightarrow> (failure msg, state1, reqs @ [PostExecute executePayload])
                     | Inr executeResult \<Rightarrow>
                         if nullish executeResult
                         then (failure (cannot_read ''result''), state1,
                               reqs @ [PostExecute executePayload])
                         else (succeeded saveResult executeResult,
                               writeResult executeResult state state1,
                               reqs @ [PostExecute executePayload])))"

subsection \<open>\<^verbatim>\<open>handleRunWorkflow\<close>\<close>

text \<open>
  The handler of the page. The result is the object given to \<^verbatim>\<open>setExecutionResult\<close>, the
  store afterwards and the requests issued. A failed validation throws, and the \<^verbatim>\<open>catch\<close>
  block reports the message of the first failed check.
\<close>

definition blocked :: "string \<Rightarrow> jsval" where
  "blocked msg = JObj [''success'' \<mapsto> JBool False, ''message'' \<mapsto> JStr msg,
     ''type'' \<mapsto> JStr ''execute'', ''error'' \<mapsto> JStr msg]"

definition reported :: "jsval \<Rightarrow> jsval" where
  "reported result = JObj [''success'' \<mapsto> js_prop result ''success'',
     ''message'' \<mapsto> js_prop result ''message'', ''type'' \<mapsto> JStr ''execute'',
     ''saveResult'' \<mapsto> js_prop result ''saveResult'',
     ''executeResult'' \<mapsto> js_prop result ''executeResult'',
     ''error'' \<mapsto> js_prop result ''error'']"

definition handleRunWorkflow :: "network \<Rightarrow> store \<Rightarrow> jsval \<times> store \<times> request list" where
  "handleRunWorkflow net state =
     (case find (\<lambda>node. is_str (ntype node) ''userQueryNode'') (nodes state) of
        None \<Rightarrow> (blocked ''Please add a User Query node to your workflow'', state, [])
      | Some userQueryNode \<Rightarrow>
          let userQuery = js_or (js_prop (config userQueryNode) ''query'') (JStr []) in
          if \<not> truthy userQuery \<or> is_str userQuery ''Write your query here''
          then (blocked ''Please enter a query in the User Query node'', state, [])
          else
            (case find (\<lambda>node. is_str (ntype node) ''outputNode'') (nodes state) of
               None \<Rightarrow> (blocked ''Please add an Output node to your workflow'', state, [])
             | Some outputNode \<Rightarrow>
                 (case find (\<lambda>node. is_str (ntype node) ''llmNode'') (nodes state) of
                    None \<Rightarrow> (blocked ''Please add an LLM node to your workflow'', state, [])
                  | Some llmNode \<Rightarrow>
                      if \<not> truthy (js_prop (config llmNode) ''apiKey'')
                      then (blocked ''Please configure an API key in your LLM node'', state, [])
                      else
                        (case saveAndExecuteWorkflow net userQuery state of
                           (result, state1, reqs) \<Rightarrow> (reported result, state1, reqs)))))"

section \<open>The wire graphs that a round trip preserves\<close>

text \<open>
  An entry of a node dictionary in the form \<^verbatim>\<open>nodesToDict\<close> gives it: stored under its own
  identifier, a JSON value, with a position, with a type that is a string but neither one
  of the editor's type names nor the name of a member of \<^verbatim>\<open>Object.prototype\<close>, with the same
  type in \<^verbatim>\<open>data\<close>, and with a configuration object in \<^verbatim>\<open>data\<close> that has no \<^verbatim>\<open>uploadedFile\<close>.
\<close>

definition normal_wire_node :: "string \<times> node \<Rightarrow> bool" where
  "normal_wire_node kn =
     (case kn of (k, n) \<Rightarrow>
        k = nid n \<and> node_json n = n \<and> truthy (position n)
        \<and> (case ntype n of
              JStr s \<Rightarrow> s \<notin> set (map fst frontend_types) \<and> s \<notin> set object_prototype
            | _ \<Rightarrow> False)
        \<and> data n ''type'' = Some (ntype n)
        \<and> (case data n ''config'' of
              Some (JObj m) \<Rightarrow> m ''uploadedFile'' = None
            | _ \<Rightarrow> False))"

text \<open>
  An entry of an edge dictionary in the form \<^verbatim>\<open>edgesToDict\<close> gives it: stored under its own
  identifier, a JSON value, each handle \<^verbatim>\<open>null\<close> or truthy, with a truthy type and \<^verbatim>\<open>data\<close>
  and without the editor's \<^verbatim>\<open>animated\<close> and \<^verbatim>\<open>style\<close>.
\<close>

definition null_or_truthy :: "jsval \<Rightarrow> bool" where
  "null_or_truthy v = (if v = JNull then True else truthy v)"

definition normal_wire_edge :: "string \<times> edge \<Rightarrow> bool" where
  "normal_wire_edge ke =
     (case ke of (k, e) \<Rightarrow>
        k = eid e \<and> edge_json e = e
        \<and> null_or_truthy (sourceHandle e) \<and> null_or_truthy (targetHandle e)
        \<and> truthy (etype e) \<and> truthy (edata e)
        \<and> animated e = JUndefined \<and> style e = JUndefined)"

text \<open>
  The keys of a dictionary in the order in which an object enumerates them: every key
  that is an array index precedes every key that is not, and the array indices ascend.
\<close>

fun enumerated :: "string list \<Rightarrow> bool" where
  "enumerated [] = True"
| "enumerated (k # ks) =
     (enumerated ks \<and>
      (case index_of k of
         None \<Rightarrow> list_all (\<lambda>j. index_of j = None) ks
       | Some n \<Rightarrow> list_all (\<lambda>j. case index_of j of None \<Rightarrow> True | Some m \<Rightarrow> n < m) ks))"

section \<open>Example graphs\<close>

text \<open>Concrete nodes, edges and stores, at which the theorems below are instantiated.\<close>

definition mk_node :: "string \<Rightarrow> string \<Rightarrow> (string \<Rightarrow> jsval option) \<Rightarrow> node" where
  "mk_node i t cfg = \<lparr> nid = i, ntype = JStr t,
     position = JObj [''x'' \<mapsto> JNum 0, ''y'' \<mapsto> JNum 0],
     data = [''type'' \<mapsto> JStr t, ''config'' \<mapsto> JObj cfg] \<rparr>"

definition mk_edge :: "string \<Rightarrow> string \<Rightarrow> string \<Rightarrow> edge" where
  "mk_edge i s t = \<lparr> eid = i, source = JStr s, target = JStr t,
     sourceHandle = JNull, targetHandle = JNull, etype = JStr ''smoothstep'',
     animated = JBool True, style = JObj [''stroke'' \<mapsto> JStr ''#FF6B6B'', ''strokeWidth'' \<mapsto> JNum 2],
     edata = JObj [''name'' \<mapsto> JStr ''Connection''] \<rparr>"

definition three_nodes :: store where
  "three_nodes = \<lparr> selectedWorkflowId = JStr ''wf1'',
     nodes = [mk_node ''A'' ''userQueryNode'' [''query'' \<mapsto> JStr ''hello''],
              mk_node ''X'' ''llmNode'' [''model'' \<mapsto> JStr ''GPT-4o-Mini'', ''apiKey'' \<mapsto> JStr ''''],
              mk_node ''B'' ''outputNode'' [''output'' \<mapsto> JStr ''none'']],
     edges = [mk_edge ''e1'' ''A'' ''X'', mk_edge ''e2'' ''X'' ''B'', mk_edge ''e3'' ''A'' ''B''],
     workflowName = JStr '''', workflowDescription = JStr '''' \<rparr>"

definition llm_first :: node where
  "llm_first = mk_node ''l1'' ''llmNode'' [''apiKey'' \<mapsto> JStr ''sk-first'', ''serpApiKey'' \<mapsto> JStr '''']"

definition kb_only :: node where
  "kb_only = mk_node ''k1'' ''knowledgeBaseNode'' [''apiKey'' \<mapsto> JStr ''kb-1'']"

definition llm_second :: node where
  "llm_second = mk_node ''l2'' ''llmNode'' [''apiKey'' \<mapsto> JStr ''sk-second'', ''serpApiKey'' \<mapsto> JStr ''serp-2'']"

definition output_only :: node where
  "output_only = mk_node ''o1'' ''outputNode'' [''output'' \<mapsto> JStr ''Workflow output will appear here.'']"

definition two_llm :: "node list" where
  "two_llm = [llm_first, kb_only, llm_second, output_only]"

text \<open>A knowledge-base node whose \<^verbatim>\<open>apiKey\<close> is the boolean \<^verbatim>\<open>true\<close>.\<close>

definition flagged :: node where
  "flagged = mk_node ''k2'' ''knowledgeBaseNode'' [''apiKey'' \<mapsto> JBool True]"

text \<open>
  A server whose save fails with status 500, and one that saves, executes with the given
  result and has no stored workflow.
\<close>

definition failing_save :: network where
  "failing_save = \<lparr>
     post_workflow = (\<lambda>p. Responded 500 ''Internal Server Error'' (Inl ''Unexpected token I'')),
     post_execute = (\<lambda>p. Responded 200 ''{}'' (Inr (JObj [''result'' \<mapsto> JStr ''42'']))),
     get_workflow = (\<lambda>w. Responded 404 ''Not Found'' (Inl ''Unexpected token N'')) \<rparr>"

definition answering :: "jsval \<Rightarrow> network" where
  "answering r = \<lparr>
     post_workflow = (\<lambda>p. Responded 200 ''{}'' (Inr (JObj [''stack_id'' \<mapsto> p_stack_id p]))),
     post_execute = (\<lambda>p. Responded 200 ''{}'' (Inr (JObj [''result'' \<mapsto> r]))),
     get_workflow = (\<lambda>w. Rejected ''Failed to fetch'') \<rparr>"

text \<open>A graph that passes the validation, and the graph of the scenario that does not.\<close>

definition ready :: store where
  "ready = \<lparr> selectedWorkflowId = JStr ''wf1'',
     nodes = [mk_node ''q1'' ''userQueryNode'' [''query'' \<mapsto> JStr ''What is 6 x 7?''],
              llm_second, output_only],
     edges = [mk_edge ''e1'' ''q1'' ''l2'', mk_edge ''e2'' ''l2'' ''o1''],
     workflowName = JStr '''', workflowDescription = JStr '''' \<rparr>"


text \<open>
  Wire dictionaries: one in the form the store sends, with an edge type that is not the
  default; a node in the shape \<^verbatim>\<open>data: {...config, type}\<close>, without a \<^verbatim>\<open>config\<close> object; a
  node whose type is an editor name; an edge without handles and type.
\<close>

definition wire_nodes :: "(string \<times> node) list" where
  "wire_nodes =
     [(''q1'', \<lparr> nid = ''q1'', ntype = JStr ''userQuery'',
                position = JObj [''x'' \<mapsto> JNum 10, ''y'' \<mapsto> JNum 20],
                data = [''type'' \<mapsto> JStr ''userQuery'',
                        ''config'' \<mapsto> JObj [''query'' \<mapsto> JStr ''hello'']] \<rparr>),
      (''l1'', \<lparr> nid = ''l1'', ntype = JStr ''llmEngine'',
                position = JObj [''x'' \<mapsto> JNum 30, ''y'' \<mapsto> JNum 40],
                data = [''type'' \<mapsto> JStr ''llmEngine'', ''name'' \<mapsto> JStr ''LLMEngine'',
                        ''config'' \<mapsto> JObj [''apiKey'' \<mapsto> JStr ''sk-1'']] \<rparr>)]"

definition wire_edges :: "(string \<times> edge) list" where
  "wire_edges =
     [(''e1'', \<lparr> eid = ''e1'', source = JStr ''q1'', target = JStr ''l1'',
                sourceHandle = JNull, targetHandle = JStr ''query-input'',
                etype = JStr ''step'', animated = JUndefined, style = JUndefined,
                edata = JObj [''name'' \<mapsto> JStr ''Query''] \<rparr>)]"

definition flat_node :: "(string \<times> node) list" where
  "flat_node =
     [(''q1'', \<lparr> nid = ''q1'', ntype = JStr ''userQuery'',
                position = JObj [''x'' \<mapsto> JNum 10, ''y'' \<mapsto> JNum 20],
                data = [''type'' \<mapsto> JStr ''userQuery'', ''query'' \<mapsto> JStr ''hello''] \<rparr>)]"

definition editor_named_node :: "(string \<times> node) list" where
  "editor_named_node =
     [(''l1'', \<lparr> nid = ''l1'', ntype = JStr ''llmNode'',
                position = JObj [''x'' \<mapsto> JNum 30, ''y'' \<mapsto> JNum 40],
                data = [''type'' \<mapsto> JStr ''llmNode'',
                        ''config'' \<mapsto> JObj [''apiKey'' \<mapsto> JStr ''sk-1'']] \<rparr>)]"

definition bare_edge :: "(string \<times> edge) list" where
  "bare_edge =
     [(''e1'', \<lparr> eid = ''e1'', source = JStr ''q1'', target = JStr ''l1'',
                sourceHandle = JUndefined, targetHandle = JUndefined,
                etype = JUndefined, animated = JUndefined, style = JUndefined,
                edata = JObj [''name'' \<mapsto> JStr ''Query''] \<rparr>)]"

text \<open>A node dictionary in the form the store sends, but with the key \<^verbatim>\<open>__proto__\<close>.\<close>

definition proto_node :: "(string \<times> node) list" where
  "proto_node =
     [(''__proto__'', \<lparr> nid = ''__proto__'', ntype = JStr ''output'',
                position = JObj [''x'' \<mapsto> JNum 10, ''y'' \<mapsto> JNum 20],
                data = [''type'' \<mapsto> JStr ''output'',
                        ''config'' \<mapsto> JObj [''output'' \<mapsto> JStr ''42'']] \<rparr>)]"

section \<open>Properties of the graph store\<close>

lemma is_str_iff: "is_str v s \<longleftrightarrow> v = JStr s"
  by (cases v) (auto simp: is_str_def)

lemma length_filter_unique:
  "distinct (map f xs) \<Longrightarrow> x \<in> set xs \<Longrightarrow> length (filter (\<lambda>y. f y = f x) xs) = 1"
proof (induction xs)
  case Nil
  then show ?case by simp
next
  case (Cons a xs)
  show ?case
  proof (cases "a = x")
    case True
    with Cons.prems have "f x \<notin> f ` set xs" by simp
    then have "\<forall>y\<in>set xs. f y \<noteq> f x" by (metis imageI)
    then have "filter (\<lambda>y. f y = f x) xs = []" by (simp add: filter_empty_conv)
    with True show ?thesis by simp
  next
    case False
    with Cons.prems have "x \<in> set xs" "f a \<noteq> f x" by auto
    with Cons show ?thesis by simp
  qed
qed

lemma length_filter_neg: "length (filter (\<lambda>x. \<not> P x) xs) + length (filter P xs) = length xs"
  by (induction xs) auto

text \<open>
  C5. \<^verbatim>\<open>removeNode(X)\<close> keeps exactly the nodes whose identifier is not \<open>X\<close> and exactly the
  edges whose source and target are not \<open>X\<close>, in one update of the state: afterwards no node
  has the identifier and no edge refers to it, the call changes nothing else, and it is a
  no-op on the nodes when \<open>X\<close> is absent. With unique node identifiers, if \<open>X\<close> exists and
  exactly two edges touch it, there is one node less and there are two edges less.
\<close>

theorem removeNode_no_dangling:
  "nodes (removeNode X st) = filter (\<lambda>n. nid n \<noteq> X) (nodes st)
   \<and> edges (removeNode X st) = filter (\<lambda>e. source e \<noteq> JStr X \<and> target e \<noteq> JStr X) (edges st)
   \<and> (\<forall>n \<in> set (nodes (removeNode X st)). nid n \<noteq> X)
   \<and> (\<forall>e \<in> set (edges (removeNode X st)). source e \<noteq> JStr X \<and> target e \<noteq> JStr X)
   \<and> (X \<notin> nid ` set (nodes st) \<longrightarrow> nodes (removeNode X st) = nodes st)
   \<and> selectedWorkflowId (removeNode X st) = selectedWorkflowId st
   \<and> (distinct (map nid (nodes st)) \<and> X \<in> nid ` set (nodes st)
        \<and> length (filter (\<lambda>e. source e = JStr X \<or> target e = JStr X) (edges st)) = 2
      \<longrightarrow> length (nodes (removeNode X st)) + 1 = length (nodes st)
          \<and> length (edges (removeNode X st)) + 2 = length (edges st))"
proof -
  have n: "nodes (removeNode X st) = filter (\<lambda>n. nid n \<noteq> X) (nodes st)"
    by (simp add: removeNode_def)
  have e: "edges (removeNode X st)
           = filter (\<lambda>e. \<not> (source e = JStr X \<or> target e = JStr X)) (edges st)"
    by (simp add: removeNode_def is_str_iff)
  have absent: "X \<notin> nid ` set (nodes st) \<Longrightarrow> filter (\<lambda>n. nid n \<noteq> X) (nodes st) = nodes st"
    by (rule filter_True) auto
  have count: "length (nodes (removeNode X st)) + 1 = length (nodes st)
               \<and> length (edges (removeNode X st)) + 2 = length (edges st)"
    if d: "distinct (map nid (nodes st))" and x: "X \<in> nid ` set (nodes st)"
      and two: "length (filter (\<lambda>e. source e = JStr X \<or> target e = JStr X) (edges st)) = 2"
  proof -
    from x obtain a where a: "a \<in> set (nodes st)" "nid a = X" by auto
    from length_filter_unique [OF d a(1)] a(2)
    have "length (filter (\<lambda>n. nid n = X) (nodes st)) = 1" by simp
    with length_filter_neg [of "\<lambda>n. nid n = X" "nodes st"] n
    have "length (nodes (removeNode X st)) + 1 = length (nodes st)" by simp
    moreover from length_filter_neg [of "\<lambda>e. source e = JStr X \<or> target e = JStr X" "edges st"]
      two e
    have "length (edges (removeNode X st)) + 2 = length (edges st)" by simp
    ultimately show ?thesis by simp
  qed
  show ?thesis
    using n e absent count by (auto simp: removeNode_def)
qed


theorem removeNode_no_dangling_witness:
  "distinct (map nid (nodes three_nodes)) \<and> ''X'' \<in> nid ` set (nodes three_nodes)
   \<and> length (filter (\<lambda>e. source e = JStr ''X'' \<or> target e = JStr ''X'') (edges three_nodes)) = 2
   \<and> length (nodes (removeNode ''X'' three_nodes)) + 1 = length (nodes three_nodes)
   \<and> length (edges (removeNode ''X'' three_nodes)) + 2 = length (edges three_nodes)
   \<and> list_all (\<lambda>n. nid n \<noteq> ''X'') (nodes (removeNode ''X'' three_nodes))
   \<and> list_all (\<lambda>e. source e \<noteq> JStr ''X'' \<and> target e \<noteq> JStr ''X'')
        (edges (removeNode ''X'' three_nodes))"
proof -
  have h: "distinct (map nid (nodes three_nodes)) \<and> ''X'' \<in> nid ` set (nodes three_nodes)
     \<and> length (filter (\<lambda>e. source e = JStr ''X'' \<or> target e = JStr ''X'') (edges three_nodes)) = 2"
    by (simp add: three_nodes_def mk_node_def mk_edge_def)
  with removeNode_no_dangling [of "''X''" three_nodes] show ?thesis
    unfolding list_all_iff by blast
qed

text \<open>
  C9. \<^verbatim>\<open>updateNodeConfig(id, partialConfig)\<close> merges shallowly: in every node with the
  identifier the new configuration is an object that maps each key of \<open>partialConfig\<close> to
  its new value and every other key to what the old configuration had (no key is lost);
  the node's other fields and other \<^verbatim>\<open>data\<close> properties, every other node, the edges and
  the selected workflow are unchanged; when no node has the identifier the state is
  unchanged.
\<close>

theorem updateNodeConfig_merge:
  "length (nodes (updateNodeConfig X c st)) = length (nodes st)
   \<and> (\<forall>i < length (nodes st).
        (nid (nodes st ! i) \<noteq> X \<longrightarrow> nodes (updateNodeConfig X c st) ! i = nodes st ! i)
      \<and> (nid (nodes st ! i) = X \<longrightarrow>
           nid (nodes (updateNodeConfig X c st) ! i) = X
         \<and> ntype (nodes (updateNodeConfig X c st) ! i) = ntype (nodes st ! i)
         \<and> position (nodes (updateNodeConfig X c st) ! i) = position (nodes st ! i)
         \<and> (\<forall>k. k \<noteq> ''config'' \<longrightarrow>
               data (nodes (updateNodeConfig X c st) ! i) k = data (nodes st ! i) k)
         \<and> (\<exists>m. config (nodes (updateNodeConfig X c st) ! i) = JObj m
               \<and> (\<forall>k. k \<notin> dom c \<longrightarrow> m k = spread (config (nodes st ! i)) k)
               \<and> (\<forall>k \<in> dom c. m k = c k))))
   \<and> edges (updateNodeConfig X c st) = edges st
   \<and> selectedWorkflowId (updateNodeConfig X c st) = selectedWorkflowId st
   \<and> (X \<notin> nid ` set (nodes st) \<longrightarrow> updateNodeConfig X c st = st)"
proof -
  have absent: "updateNodeConfig X c st = st" if "X \<notin> nid ` set (nodes st)"
  proof -
    have "map (\<lambda>node. if nid node = X
             then node \<lparr> data := (data node)(''config'' \<mapsto> JObj (spread (config node) ++ c)) \<rparr>
             else node) (nodes st) = map (\<lambda>node. node) (nodes st)"
      using that by (intro map_cong) auto
    then show ?thesis by (simp add: updateNodeConfig_def)
  qed
  have merged: "(spread v ++ c) k = spread v k" if "k \<notin> dom c" for v k
    using that by (simp add: map_add_def domIff split: option.splits)
  have new: "(spread v ++ c) k = c k" if "k \<in> dom c" for v k
    using that by (auto simp: map_add_def split: option.splits)
  show ?thesis
    using absent merged new
    by (auto simp: updateNodeConfig_def config_def get_def)
qed

theorem updateNodeConfig_merge_witness:
  "1 < length (nodes three_nodes) \<and> nid (nodes three_nodes ! 1) = ''X''
   \<and> ''model'' \<notin> dom [''apiKey'' \<mapsto> JStr ''sk-1''] \<and> ''apiKey'' \<in> dom [''apiKey'' \<mapsto> JStr ''sk-1'']
   \<and> (\<exists>m. config (nodes (updateNodeConfig ''X'' [''apiKey'' \<mapsto> JStr ''sk-1''] three_nodes) ! 1) = JObj m
         \<and> m ''model'' = Some (JStr ''GPT-4o-Mini'') \<and> m ''apiKey'' = Some (JStr ''sk-1''))
   \<and> nodes (updateNodeConfig ''X'' [''apiKey'' \<mapsto> JStr ''sk-1''] three_nodes) ! 0 = nodes three_nodes ! 0
   \<and> ''Z'' \<notin> nid ` set (nodes three_nodes)
   \<and> updateNodeConfig ''Z'' [''apiKey'' \<mapsto> JStr ''sk-1''] three_nodes = three_nodes"
proof -
  have h: "1 < length (nodes three_nodes) \<and> nid (nodes three_nodes ! 1) = ''X''
     \<and> 0 < length (nodes three_nodes) \<and> nid (nodes three_nodes ! 0) \<noteq> ''X''
     \<and> ''model'' \<notin> dom [''apiKey'' \<mapsto> JStr ''sk-1''] \<and> ''apiKey'' \<in> dom [''apiKey'' \<mapsto> JStr ''sk-1'']
     \<and> ''Z'' \<notin> nid ` set (nodes three_nodes)"
    by (simp add: three_nodes_def mk_node_def)
  have old: "spread (config (nodes three_nodes ! 1)) ''model'' = Some (JStr ''GPT-4o-Mini'')"
    by (simp add: three_nodes_def mk_node_def config_def get_def)
  have new: "[''apiKey'' \<mapsto> JStr ''sk-1''] ''apiKey'' = Some (JStr ''sk-1'')"
    by simp
  from updateNodeConfig_merge [of "''X''" "[''apiKey'' \<mapsto> JStr ''sk-1'']" three_nodes] h
  have "\<exists>m. config (nodes (updateNodeConfig ''X'' [''apiKey'' \<mapsto> JStr ''sk-1''] three_nodes) ! 1) = JObj m
         \<and> (\<forall>k. k \<notin> dom [''apiKey'' \<mapsto> JStr ''sk-1''] \<longrightarrow> m k = spread (config (nodes three_nodes ! 1)) k)
         \<and> (\<forall>k \<in> dom [''apiKey'' \<mapsto> JStr ''sk-1'']. m k = [''apiKey'' \<mapsto> JStr ''sk-1''] k)"
    by blast
  then obtain m where m: "config (nodes (updateNodeConfig ''X'' [''apiKey'' \<mapsto> JStr ''sk-1''] three_nodes) ! 1) = JObj m"
      "m ''model'' = spread (config (nodes three_nodes ! 1)) ''model''"
      "m ''apiKey'' = [''apiKey'' \<mapsto> JStr ''sk-1''] ''apiKey''"
    using h by blast
  have first: "nodes (updateNodeConfig ''X'' [''apiKey'' \<mapsto> JStr ''sk-1''] three_nodes) ! 0 = nodes three_nodes ! 0"
    using updateNodeConfig_merge [of "''X''" "[''apiKey'' \<mapsto> JStr ''sk-1'']" three_nodes] h by blast
  have noop: "updateNodeConfig ''Z'' [''apiKey'' \<mapsto> JStr ''sk-1''] three_nodes = three_nodes"
    using updateNodeConfig_merge [of "''Z''" "[''apiKey'' \<mapsto> JStr ''sk-1'']" three_nodes] h by blast
  from m old new first noop h show ?thesis
    by auto
qed

section \<open>Connecting nodes\<close>

lemma determineEdgeName_Unknown:
  assumes "c_source c \<notin> Some ` nid ` set ns \<or> c_target c \<notin> Some ` nid ` set ns"
  shows "determineEdgeName c ns = ''Unknown''"
proof -
  from assms have "find (\<lambda>node. Some (nid node) = c_source c) ns = None
      \<or> find (\<lambda>node. Some (nid node) = c_target c) ns = None"
    by (auto simp: find_None_iff image_iff)
  then show ?thesis
    by (auto simp: determineEdgeName_def split: option.splits)
qed

lemma truthy_of_opt: "truthy (of_opt x) \<longleftrightarrow> (\<exists>s. x = Some s \<and> s \<noteq> [])"
  by (cases x) (auto simp: of_opt_def)

text \<open>
  C2, as the code has it. A connection whose source or target matches no node is not
  rejected by the store: \<^verbatim>\<open>determineEdgeName\<close> labels it \<^verbatim>\<open>Unknown\<close> and the new edge goes
  to the library's \<^verbatim>\<open>addEdge\<close> like any other. When source and target are non-empty strings
  and no edge with the same endpoints and handles exists, the edge is appended (one edge
  more); the edges are unchanged only when the source or the target is \<^verbatim>\<open>null\<close> or empty.
  The nodes are never changed.
\<close>

theorem onConnect_missing_endpoint:
  assumes "c_source c \<notin> Some ` nid ` set (nodes st) \<or> c_target c \<notin> Some ` nid ` set (nodes st)"
  shows "edges (onConnect c now st) = addEdge (newEdge c now ''Unknown'') (edges st)
    \<and> nodes (onConnect c now st) = nodes st
    \<and> ((\<exists>s t. c_source c = Some s \<and> s \<noteq> [] \<and> c_target c = Some t \<and> t \<noteq> [])
         \<and> \<not> connectionExists (newEdge c now ''Unknown'') (edges st)
       \<longrightarrow> edges (onConnect c now st) = edges st @ [newEdge c now ''Unknown'']
           \<and> length (edges (onConnect c now st)) = length (edges st) + 1)
    \<and> (c_source c = None \<or> c_source c = Some [] \<or> c_target c = None \<or> c_target c = Some []
       \<longrightarrow> edges (onConnect c now st) = edges st)"
proof -
  have e: "edges (onConnect c now st) = addEdge (newEdge c now ''Unknown'') (edges st)"
    using determineEdgeName_Unknown [OF assms] by (simp add: onConnect_def)
  have src: "source (newEdge c now ''Unknown'') = of_opt (c_source c)"
    and tgt: "target (newEdge c now ''Unknown'') = of_opt (c_target c)"
    by (simp_all add: newEdge_def)
  have nn: "nodes (onConnect c now st) = nodes st"
    by (simp add: onConnect_def Let_def)
  show ?thesis
    unfolding e nn
    by (auto simp: addEdge_def src tgt truthy_of_opt)
qed

theorem onConnect_missing_endpoint_witness:
  "c_target \<lparr> c_source = Some ''A'', c_target = Some ''ghost'', c_sourceHandle = None,
              c_targetHandle = None \<rparr> \<notin> Some ` nid ` set (nodes three_nodes)
   \<and> \<not> connectionExists
        (newEdge \<lparr> c_source = Some ''A'', c_target = Some ''ghost'', c_sourceHandle = None,
                   c_targetHandle = None \<rparr> 17 ''Unknown'') (edges three_nodes)
   \<and> length (edges (onConnect \<lparr> c_source = Some ''A'', c_target = Some ''ghost'',
                c_sourceHandle = None, c_targetHandle = None \<rparr> 17 three_nodes))
     = length (edges three_nodes) + 1
   \<and> edges (onConnect \<lparr> c_source = Some ''A'', c_target = None,
                c_sourceHandle = None, c_targetHandle = None \<rparr> 17 three_nodes)
     = edges three_nodes"
proof -
  let ?c = "\<lparr> c_source = Some ''A'', c_target = Some ''ghost'', c_sourceHandle = None,
              c_targetHandle = None \<rparr>"
  let ?d = "\<lparr> c_source = Some ''A'', c_target = None, c_sourceHandle = None,
              c_targetHandle = None \<rparr>"
  have h: "c_target ?c \<notin> Some ` nid ` set (nodes three_nodes)"
    by (simp add: three_nodes_def mk_node_def)
  have n: "\<not> connectionExists (newEdge ?c 17 ''Unknown'') (edges three_nodes)"
    by (simp add: connectionExists_def newEdge_def three_nodes_def mk_edge_def of_opt_def)
  have s: "\<exists>s t. c_source ?c = Some s \<and> s \<noteq> [] \<and> c_target ?c = Some t \<and> t \<noteq> []"
    by simp
  have h': "c_target ?d \<notin> Some ` nid ` set (nodes three_nodes)"
    by simp
  have "length (edges (onConnect ?c 17 three_nodes)) = length (edges three_nodes) + 1"
    using onConnect_missing_endpoint [OF disjI2 [OF h], of 17] n s by blast
  moreover have z: "c_target ?d = None"
    by simp
  have "edges (onConnect ?d 17 three_nodes) = edges three_nodes"
    using onConnect_missing_endpoint [OF disjI2 [OF h'], of 17] z by blast
  ultimately show ?thesis using h n by blast
qed

text \<open>
  The claim as stated fails: connecting the existing node \<open>A\<close> to the identifier \<open>ghost\<close>,
  which no node has, adds an edge labelled \<^verbatim>\<open>Unknown\<close>.
\<close>

theorem onConnect_missing_endpoint_counterexample:
  "c_target \<lparr> c_source = Some ''A'', c_target = Some ''ghost'', c_sourceHandle = None,
              c_targetHandle = None \<rparr> \<notin> Some ` nid ` set (nodes three_nodes)
   \<and> edges (onConnect \<lparr> c_source = Some ''A'', c_target = Some ''ghost'',
                c_sourceHandle = None, c_targetHandle = None \<rparr> 17 three_nodes)
       = edges three_nodes @
         [\<lparr> eid = ''eA-ghost-17'', source = JStr ''A'', target = JStr ''ghost'',
            sourceHandle = JNull, targetHandle = JNull, etype = JStr ''smoothstep'',
            animated = JBool True,
            style = JObj [''stroke'' \<mapsto> JStr ''#FF6B6B'', ''strokeWidth'' \<mapsto> JNum 2],
            edata = JObj [''name'' \<mapsto> JStr ''Unknown''] \<rparr>]
   \<and> edges (onConnect \<lparr> c_source = Some ''A'', c_target = Some ''ghost'',
                c_sourceHandle = None, c_targetHandle = None \<rparr> 17 three_nodes)
       \<noteq> edges three_nodes"
  by (simp add: onConnect_def determineEdgeName_def addEdge_def connectionExists_def
      newEdge_def three_nodes_def mk_node_def mk_edge_def of_opt_def shown_def)

section \<open>The secrets bundle\<close>

lemma find_append_case:
  "find P (xs @ ys) = (case find P xs of None \<Rightarrow> find P ys | Some x \<Rightarrow> Some x)"
  by (induction xs) auto

lemma collect_llm: "k_llm (collect n a) = (if truthy (llm_key n) then llm_key n else k_llm a)"
  by (simp add: collect_def llm_key_def Let_def)

lemma collect_knowledge:
  "k_knowledge (collect n a) = (if truthy (knowledge_key n) then knowledge_key n else k_knowledge a)"
  by (simp add: collect_def knowledge_key_def Let_def)

lemma collect_websearch:
  "k_websearch (collect n a) = (if truthy (websearch_key n) then websearch_key n else k_websearch a)"
  by (auto simp: collect_def websearch_key_def Let_def)

text \<open>
  Each field of the accumulator holds the last truthy credential offered for it, or its
  initial value when there is none.
\<close>

lemma fold_collect_llm:
  "k_llm (fold collect ns a)
   = (case find truthy (rev (map llm_key ns)) of None \<Rightarrow> k_llm a | Some v \<Rightarrow> v)"
proof (induction ns arbitrary: a)
  case Nil
  then show ?case by simp
next
  case (Cons n ns)
  show ?case
    by (simp add: Cons.IH find_append_case collect_llm split: option.splits)
qed

lemma fold_collect_knowledge:
  "k_knowledge (fold collect ns a)
   = (case find truthy (rev (map knowledge_key ns)) of None \<Rightarrow> k_knowledge a | Some v \<Rightarrow> v)"
proof (induction ns arbitrary: a)
  case Nil
  then show ?case by simp
next
  case (Cons n ns)
  show ?case
    by (simp add: Cons.IH find_append_case collect_knowledge split: option.splits)
qed

lemma fold_collect_websearch:
  "k_websearch (fold collect ns a)
   = (case find truthy (rev (map websearch_key ns)) of None \<Rightarrow> k_websearch a | Some v \<Rightarrow> v)"
proof (induction ns arbitrary: a)
  case Nil
  then show ?case by simp
next
  case (Cons n ns)
  show ?case
    by (simp add: Cons.IH find_append_case collect_websearch split: option.splits)
qed

lemma find_truthy_Some: "find truthy xs = Some v \<Longrightarrow> truthy v \<and> v \<in> set xs"
  by (induction xs) (auto split: if_splits)

lemma present_last:
  "\<not> truthy d \<Longrightarrow> present (case find truthy xs of None \<Rightarrow> d | Some v \<Rightarrow> v) = find truthy xs"
  by (auto simp: present_def split: option.splits dest: find_truthy_Some)

lemma extractApiKeys_fields:
  "llm (extractApiKeys ns) = find truthy (rev (map llm_key ns))"
  "knowledge (extractApiKeys ns) = find truthy (rev (map knowledge_key ns))"
  "websearch (extractApiKeys ns) = find truthy (rev (map websearch_key ns))"
  by (simp_all add: extractApiKeys_def Let_def fold_collect_llm fold_collect_knowledge
      fold_collect_websearch present_last)

lemma find_truthy_None: "find truthy (rev (map f ns)) = None \<longleftrightarrow> list_all (\<lambda>n. \<not> truthy (f n)) ns"
  by (auto simp: find_None_iff list_all_iff)

lemma find_truthy_last:
  assumes "truthy (f n)" and "list_all (\<lambda>m. \<not> truthy (f m)) ys"
  shows "find truthy (rev (map f (xs @ n # ys))) = Some (f n)"
proof -
  from assms(2) have "find truthy (rev (map f ys)) = None"
    by (simp add: find_truthy_None)
  with assms(1) show ?thesis
    by (simp add: find_append_case)
qed

lemma string_or_missing_truthy:
  "string_or_missing v \<Longrightarrow> truthy v \<Longrightarrow> \<exists>s. v = JStr s \<and> s \<noteq> []"
  by (cases v) (auto simp: string_or_missing_def)

text \<open>
  C6, as the code has it. A field of the bundle is present only with a truthy value (never
  the empty string, \<^verbatim>\<open>undefined\<close> or \<^verbatim>\<open>null\<close>), which is the credential of one of the nodes;
  it is left out exactly when every node's credential for it is falsy (empty or missing).
  The test is truthiness, not being a string: when every credential for a field is a
  string or missing, a present field is a non-empty string. The save payload carries the
  bundle when it has a field, and \<^verbatim>\<open>null\<close> in its place, not an object of empty strings,
  exactly when all three fields are left out.
\<close>

theorem extractApiKeys_only_nonempty:
  "(\<forall>v. llm (extractApiKeys ns) = Some v
        \<longrightarrow> truthy v \<and> v \<noteq> JStr [] \<and> v \<noteq> JUndefined \<and> v \<noteq> JNull \<and> v \<in> llm_key ` set ns)
   \<and> (\<forall>v. knowledge (extractApiKeys ns) = Some v
        \<longrightarrow> truthy v \<and> v \<noteq> JStr [] \<and> v \<noteq> JUndefined \<and> v \<noteq> JNull \<and> v \<in> knowledge_key ` set ns)
   \<and> (\<forall>v. websearch (extractApiKeys ns) = Some v
        \<longrightarrow> truthy v \<and> v \<noteq> JStr [] \<and> v \<noteq> JUndefined \<and> v \<noteq> JNull \<and> v \<in> websearch_key ` set ns)
   \<and> (llm (extractApiKeys ns) = None \<longleftrightarrow> list_all (\<lambda>n. \<not> truthy (llm_key n)) ns)
   \<and> (knowledge (extractApiKeys ns) = None \<longleftrightarrow> list_all (\<lambda>n. \<not> truthy (knowledge_key n)) ns)
   \<and> (websearch (extractApiKeys ns) = None \<longleftrightarrow> list_all (\<lambda>n. \<not> truthy (websearch_key n)) ns)
   \<and> (p_api_keys (savePayload w (st \<lparr> nodes := ns \<rparr>)) = None
        \<longleftrightarrow> list_all (\<lambda>n. \<not> truthy (llm_key n) \<and> \<not> truthy (knowledge_key n)
                          \<and> \<not> truthy (websearch_key n)) ns)
   \<and> (p_api_keys (savePayload w (st \<lparr> nodes := ns \<rparr>)) \<noteq> None
        \<longrightarrow> p_api_keys (savePayload w (st \<lparr> nodes := ns \<rparr>)) = Some (extractApiKeys ns))
   \<and> (list_all (\<lambda>n. string_or_missing (llm_key n)) ns
        \<longrightarrow> (\<forall>v. llm (extractApiKeys ns) = Some v \<longrightarrow> (\<exists>s. v = JStr s \<and> s \<noteq> [])))
   \<and> (list_all (\<lambda>n. string_or_missing (knowledge_key n)) ns
        \<longrightarrow> (\<forall>v. knowledge (extractApiKeys ns) = Some v \<longrightarrow> (\<exists>s. v = JStr s \<and> s \<noteq> [])))
   \<and> (list_all (\<lambda>n. string_or_missing (websearch_key n)) ns
        \<longrightarrow> (\<forall>v. websearch (extractApiKeys ns) = Some v \<longrightarrow> (\<exists>s. v = JStr s \<and> s \<noteq> [])))"
proof -
  have str: "\<exists>s. v = JStr s \<and> s \<noteq> []"
    if "list_all (\<lambda>n. string_or_missing (f n)) ns" "find truthy (rev (map f ns)) = Some v"
    for f :: "node \<Rightarrow> jsval" and v
  proof -
    from find_truthy_Some [OF that(2)] have "truthy v" "v \<in> f ` set ns" by auto
    with that(1) have "string_or_missing v"
      by (auto simp: list_all_iff)
    then show ?thesis
      using \<open>truthy v\<close> by (rule string_or_missing_truthy)
  qed
  have strs:
    "list_all (\<lambda>n. string_or_missing (llm_key n)) ns
        \<longrightarrow> (\<forall>v. llm (extractApiKeys ns) = Some v \<longrightarrow> (\<exists>s. v = JStr s \<and> s \<noteq> []))"
    "list_all (\<lambda>n. string_or_missing (knowledge_key n)) ns
        \<longrightarrow> (\<forall>v. knowledge (extractApiKeys ns) = Some v \<longrightarrow> (\<exists>s. v = JStr s \<and> s \<noteq> []))"
    "list_all (\<lambda>n. string_or_missing (websearch_key n)) ns
        \<longrightarrow> (\<forall>v. websearch (extractApiKeys ns) = Some v \<longrightarrow> (\<exists>s. v = JStr s \<and> s \<noteq> []))"
    unfolding extractApiKeys_fields using str by blast+
  have some: "truthy v \<and> v \<noteq> JStr [] \<and> v \<noteq> JUndefined \<and> v \<noteq> JNull \<and> v \<in> f ` set ns"
    if "find truthy (rev (map f ns)) = Some v" for f :: "node \<Rightarrow> jsval" and v
  proof -
    from find_truthy_Some [OF that] have "truthy v" "v \<in> f ` set ns" by auto
    then show ?thesis by auto
  qed
  have payload: "p_api_keys (savePayload w (st \<lparr> nodes := ns \<rparr>))
      = (if llm (extractApiKeys ns) = None \<and> knowledge (extractApiKeys ns) = None
            \<and> websearch (extractApiKeys ns) = None
         then None else Some (extractApiKeys ns))"
    by (simp add: savePayload_def Let_def)
  have all: "list_all (\<lambda>n. \<not> truthy (llm_key n) \<and> \<not> truthy (knowledge_key n)
                 \<and> \<not> truthy (websearch_key n)) ns
      \<longleftrightarrow> list_all (\<lambda>n. \<not> truthy (llm_key n)) ns \<and> list_all (\<lambda>n. \<not> truthy (knowledge_key n)) ns
          \<and> list_all (\<lambda>n. \<not> truthy (websearch_key n)) ns"
    by (auto simp: list_all_iff)
  have main: "(\<forall>v. llm (extractApiKeys ns) = Some v
        \<longrightarrow> truthy v \<and> v \<noteq> JStr [] \<and> v \<noteq> JUndefined \<and> v \<noteq> JNull \<and> v \<in> llm_key ` set ns)
   \<and> (\<forall>v. knowledge (extractApiKeys ns) = Some v
        \<longrightarrow> truthy v \<and> v \<noteq> JStr [] \<and> v \<noteq> JUndefined \<and> v \<noteq> JNull \<and> v \<in> knowledge_key ` set ns)
   \<and> (\<forall>v. websearch (extractApiKeys ns) = Some v
        \<longrightarrow> truthy v \<and> v \<noteq> JStr [] \<and> v \<noteq> JUndefined \<and> v \<noteq> JNull \<and> v \<in> websearch_key ` set ns)
   \<and> (llm (extractApiKeys ns) = None \<longleftrightarrow> list_all (\<lambda>n. \<not> truthy (llm_key n)) ns)
   \<and> (knowledge (extractApiKeys ns) = None \<longleftrightarrow> list_all (\<lambda>n. \<not> truthy (knowledge_key n)) ns)
   \<and> (websearch (extractApiKeys ns) = None \<longleftrightarrow> list_all (\<lambda>n. \<not> truthy (websearch_key n)) ns)
   \<and> (p_api_keys (savePayload w (st \<lparr> nodes := ns \<rparr>)) = None
        \<longleftrightarrow> list_all (\<lambda>n. \<not> truthy (llm_key n) \<and> \<not> truthy (knowledge_key n)
                          \<and> \<not> truthy (websearch_key n)) ns)
   \<and> (p_api_keys (savePayload w (st \<lparr> nodes := ns \<rparr>)) \<noteq> None
        \<longrightarrow> p_api_keys (savePayload w (st \<lparr> nodes := ns \<rparr>)) = Some (extractApiKeys ns))"
    unfolding payload all extractApiKeys_fields find_truthy_None [symmetric]
    using some by auto
  from main strs show ?thesis by blast
qed

text \<open>
  C10. The bundle carries, for each field, the credential of the last node in array order
  that offers a truthy one: a later language-model node with a non-empty \<^verbatim>\<open>apiKey\<close>
  overwrites an earlier one, and likewise for the knowledge-base key and for the search
  key of language-model and web-search nodes.
\<close>

theorem extractApiKeys_last_wins:
  "(has_type n ''llmNode'' \<and> truthy (config n) \<and> truthy (js_prop (config n) ''apiKey'')
      \<and> list_all (\<lambda>m. \<not> truthy (llm_key m)) ys
     \<longrightarrow> llm (extractApiKeys (xs @ n # ys)) = Some (js_prop (config n) ''apiKey''))
   \<and> (has_type n ''knowledgeBaseNode'' \<and> truthy (config n)
      \<and> truthy (js_prop (config n) ''apiKey'')
      \<and> list_all (\<lambda>m. \<not> truthy (knowledge_key m)) ys
     \<longrightarrow> knowledge (extractApiKeys (xs @ n # ys)) = Some (js_prop (config n) ''apiKey''))
   \<and> ((has_type n ''llmNode'' \<or> has_type n ''webSearchNode'') \<and> truthy (config n)
      \<and> truthy (js_prop (config n) ''serpApiKey'')
      \<and> list_all (\<lambda>m. \<not> truthy (websearch_key m)) ys
     \<longrightarrow> websearch (extractApiKeys (xs @ n # ys)) = Some (js_prop (config n) ''serpApiKey''))"
proof -
  have l: "llm (extractApiKeys (xs @ n # ys)) = Some (js_prop (config n) ''apiKey'')"
    if "has_type n ''llmNode''" "truthy (config n)" "truthy (js_prop (config n) ''apiKey'')"
      "list_all (\<lambda>m. \<not> truthy (llm_key m)) ys"
  proof -
    from that have k: "llm_key n = js_prop (config n) ''apiKey''" "truthy (llm_key n)"
      by (simp_all add: llm_key_def)
    from find_truthy_last [of llm_key n ys xs, OF k(2) that(4)] k(1) show ?thesis
      by (simp add: extractApiKeys_fields)
  qed
  have kb: "knowledge (extractApiKeys (xs @ n # ys)) = Some (js_prop (config n) ''apiKey'')"
    if "has_type n ''knowledgeBaseNode''" "truthy (config n)"
      "truthy (js_prop (config n) ''apiKey'')"
      "list_all (\<lambda>m. \<not> truthy (knowledge_key m)) ys"
  proof -
    from that have k: "knowledge_key n = js_prop (config n) ''apiKey''" "truthy (knowledge_key n)"
      by (simp_all add: knowledge_key_def)
    from find_truthy_last [of knowledge_key n ys xs, OF k(2) that(4)] k(1) show ?thesis
      by (simp add: extractApiKeys_fields)
  qed
  have ws: "websearch (extractApiKeys (xs @ n # ys)) = Some (js_prop (config n) ''serpApiKey'')"
    if "has_type n ''llmNode'' \<or> has_type n ''webSearchNode''" "truthy (config n)"
      "truthy (js_prop (config n) ''serpApiKey'')"
      "list_all (\<lambda>m. \<not> truthy (websearch_key m)) ys"
  proof -
    from that have k: "websearch_key n = js_prop (config n) ''serpApiKey''"
        "truthy (websearch_key n)"
      by (simp_all add: websearch_key_def)
    from find_truthy_last [of websearch_key n ys xs, OF k(2) that(4)] k(1) show ?thesis
      by (simp add: extractApiKeys_fields)
  qed
  from l kb ws show ?thesis by blast
qed

lemmas example_node_defs =
  llm_first_def kb_only_def llm_second_def output_only_def mk_node_def
  llm_key_def knowledge_key_def websearch_key_def config_def get_def
  has_type_def data_type_is_def is_str_def

theorem extractApiKeys_last_wins_witness:
  "two_llm = [llm_first, kb_only] @ llm_second # [output_only]
   \<and> has_type llm_second ''llmNode'' \<and> truthy (config llm_second)
   \<and> truthy (js_prop (config llm_second) ''apiKey'')
   \<and> list_all (\<lambda>m. \<not> truthy (llm_key m)) [output_only]
   \<and> truthy (js_prop (config llm_first) ''apiKey'')
   \<and> llm (extractApiKeys two_llm) = Some (JStr ''sk-second'')
   \<and> websearch (extractApiKeys two_llm) = Some (JStr ''serp-2'')
   \<and> knowledge (extractApiKeys two_llm) = Some (JStr ''kb-1'')"
proof -
  have split: "two_llm = [llm_first, kb_only] @ llm_second # [output_only]"
      "two_llm = [llm_first] @ kb_only # [llm_second, output_only]"
    by (simp_all add: two_llm_def)
  have h: "has_type llm_second ''llmNode''" "truthy (config llm_second)"
      "truthy (js_prop (config llm_second) ''apiKey'')"
      "truthy (js_prop (config llm_second) ''serpApiKey'')"
      "list_all (\<lambda>m. \<not> truthy (llm_key m)) [output_only]"
      "list_all (\<lambda>m. \<not> truthy (websearch_key m)) [output_only]"
      "truthy (js_prop (config llm_first) ''apiKey'')"
    by (simp_all add: example_node_defs)
  have k: "has_type kb_only ''knowledgeBaseNode''" "truthy (config kb_only)"
      "truthy (js_prop (config kb_only) ''apiKey'')"
      "list_all (\<lambda>m. \<not> truthy (knowledge_key m)) [llm_second, output_only]"
    by (simp_all add: example_node_defs)
  have v: "js_prop (config llm_second) ''apiKey'' = JStr ''sk-second''"
      "js_prop (config llm_second) ''serpApiKey'' = JStr ''serp-2''"
      "js_prop (config kb_only) ''apiKey'' = JStr ''kb-1''"
    by (simp_all add: example_node_defs)
  from extractApiKeys_last_wins [of llm_second "[output_only]" "[llm_first, kb_only]"] h
  have "llm (extractApiKeys two_llm) = Some (js_prop (config llm_second) ''apiKey'')"
      "websearch (extractApiKeys two_llm) = Some (js_prop (config llm_second) ''serpApiKey'')"
    unfolding split(1) [symmetric] by blast+
  moreover from extractApiKeys_last_wins [of kb_only "[llm_second, output_only]" "[llm_first]"] k
  have "knowledge (extractApiKeys two_llm) = Some (js_prop (config kb_only) ''apiKey'')"
    unfolding split(2) [symmetric] by blast
  ultimately show ?thesis
    using split(1) h v by simp
qed

theorem extractApiKeys_only_nonempty_witness:
  "list_all (\<lambda>n. \<not> truthy (llm_key n) \<and> \<not> truthy (knowledge_key n) \<and> \<not> truthy (websearch_key n))
      (nodes three_nodes)
   \<and> llm (extractApiKeys (nodes three_nodes)) = None
   \<and> p_api_keys (savePayload (JStr ''wf1'') three_nodes) = None
   \<and> \<not> list_all (\<lambda>n. \<not> truthy (llm_key n)) two_llm
   \<and> (\<exists>v. llm (extractApiKeys two_llm) = Some v \<and> truthy v \<and> v \<noteq> JStr [])
   \<and> p_api_keys (savePayload (JStr ''wf1'') (three_nodes \<lparr> nodes := two_llm \<rparr>))
       = Some (extractApiKeys two_llm)
   \<and> list_all (\<lambda>n. string_or_missing (llm_key n)) two_llm
   \<and> (\<exists>s. llm (extractApiKeys two_llm) = Some (JStr s) \<and> s \<noteq> [])"
proof -
  have m: "list_all (\<lambda>n. string_or_missing (llm_key n)) two_llm"
    by (simp add: two_llm_def example_node_defs string_or_missing_def)
  have h: "list_all (\<lambda>n. \<not> truthy (llm_key n) \<and> \<not> truthy (knowledge_key n)
              \<and> \<not> truthy (websearch_key n)) (nodes three_nodes)"
      "list_all (\<lambda>n. \<not> truthy (llm_key n)) (nodes three_nodes)"
    by (simp_all add: three_nodes_def example_node_defs)
  have g: "\<not> list_all (\<lambda>n. \<not> truthy (llm_key n)) two_llm"
      "\<not> list_all (\<lambda>n. \<not> truthy (llm_key n) \<and> \<not> truthy (knowledge_key n)
              \<and> \<not> truthy (websearch_key n)) two_llm"
    by (simp_all add: two_llm_def example_node_defs)
  have same: "three_nodes \<lparr> nodes := nodes three_nodes \<rparr> = three_nodes"
    by simp
  from extractApiKeys_only_nonempty [of "nodes three_nodes" "JStr ''wf1''" three_nodes] h
  have a: "llm (extractApiKeys (nodes three_nodes)) = None"
      "p_api_keys (savePayload (JStr ''wf1'') three_nodes) = None"
    unfolding same by blast+
  from extractApiKeys_only_nonempty [of two_llm "JStr ''wf1''" three_nodes] g
  have b: "\<exists>v. llm (extractApiKeys two_llm) = Some v \<and> truthy v \<and> v \<noteq> JStr []"
      "p_api_keys (savePayload (JStr ''wf1'') (three_nodes \<lparr> nodes := two_llm \<rparr>))
         = Some (extractApiKeys two_llm)"
    by (metis option.exhaust)+
  from b(1) obtain v where v: "llm (extractApiKeys two_llm) = Some v"
    by blast
  from extractApiKeys_only_nonempty [of two_llm "JStr ''wf1''" three_nodes] m v
  have "\<exists>s. v = JStr s \<and> s \<noteq> []"
    by blast
  with v have c: "\<exists>s. llm (extractApiKeys two_llm) = Some (JStr s) \<and> s \<noteq> []"
    by blast
  from h(1) a g(1) b m c show ?thesis
    by blast
qed

text \<open>
  The claim as stated fails for a credential that is truthy and no string: a
  knowledge-base node whose \<^verbatim>\<open>apiKey\<close> is \<^verbatim>\<open>true\<close> puts \<^verbatim>\<open>true\<close> into the bundle, and the
  save payload carries it.
\<close>

theorem extractApiKeys_boolean_counterexample:
  "knowledge_key flagged = JBool True
   \<and> knowledge (extractApiKeys [flagged]) = Some (JBool True)
   \<and> (\<forall>s. JBool True \<noteq> JStr s)
   \<and> p_api_keys (savePayload (JStr ''wf1'') (three_nodes \<lparr> nodes := [flagged] \<rparr>))
       = Some \<lparr> llm = None, knowledge = Some (JBool True), websearch = None \<rparr>"
  by (simp add: flagged_def extractApiKeys_def collect_def present_def savePayload_def Let_def
      example_node_defs)

section \<open>Loading a workflow\<close>

text \<open>
  C8, as the code has it. For no identifier, the empty one, the sentinel \<^verbatim>\<open>new\<close> or a
  temporary (\<^verbatim>\<open>temp_\<close>) identifier, \<^verbatim>\<open>loadWorkflow\<close> skips loading: it binds the store to
  the identifier, leaves nodes and edges as they are, issues no request and returns
  \<^verbatim>\<open>true\<close>. For any other identifier whose request is rejected (transport error) or
  answered with a status that is not a success, it leaves an empty graph bound to the
  requested identifier after the one request, and returns \<^verbatim>\<open>true\<close> for status 404 and
  \<^verbatim>\<open>false\<close> otherwise; it never throws.
\<close>

theorem loadWorkflow_degrades:
  "((w = None \<or> w = Some [] \<or> w = Some ''new'' \<or> (\<exists>s. w = Some s \<and> take 5 s = ''temp_''))
     \<longrightarrow> loadWorkflow net w st = (True, st \<lparr> selectedWorkflowId := of_id w \<rparr>, []))
   \<and> (s \<noteq> [] \<and> s \<noteq> ''new'' \<and> take 5 s \<noteq> ''temp_'' \<and> get_workflow net s = Rejected m
     \<longrightarrow> loadWorkflow net (Some s) st
         = (False, st \<lparr> selectedWorkflowId := JStr s, nodes := [], edges := [],
                       workflowName := JStr [], workflowDescription := JStr [] \<rparr>,
            [GetWorkflow s]))
   \<and> (s \<noteq> [] \<and> s \<noteq> ''new'' \<and> take 5 s \<noteq> ''temp_''
      \<and> get_workflow net s = Responded status text body \<and> \<not> ok status
     \<longrightarrow> loadWorkflow net (Some s) st
         = (status = 404, st \<lparr> selectedWorkflowId := JStr s, nodes := [], edges := [],
                              workflowName := JStr [], workflowDescription := JStr [] \<rparr>,
            [GetWorkflow s]))"
  by (auto simp: loadWorkflow_def emptyWorkflow_def split: option.splits)

theorem loadWorkflow_degrades_witness:
  "loadWorkflow failing_save (Some ''new'') three_nodes
     = (True, three_nodes \<lparr> selectedWorkflowId := JStr ''new'' \<rparr>, [])
   \<and> get_workflow failing_save ''wf9'' = Responded 404 ''Not Found'' (Inl ''Unexpected token N'')
   \<and> \<not> ok 404
   \<and> loadWorkflow failing_save (Some ''wf9'') three_nodes
     = (True, three_nodes \<lparr> selectedWorkflowId := JStr ''wf9'', nodes := [], edges := [],
                            workflowName := JStr [], workflowDescription := JStr [] \<rparr>,
        [GetWorkflow ''wf9''])
   \<and> get_workflow (answering JNull) ''wf9'' = Rejected ''Failed to fetch''
   \<and> loadWorkflow (answering JNull) (Some ''wf9'') three_nodes
     = (False, three_nodes \<lparr> selectedWorkflowId := JStr ''wf9'', nodes := [], edges := [],
                             workflowName := JStr [], workflowDescription := JStr [] \<rparr>,
        [GetWorkflow ''wf9''])"
proof -
  have id: "of_id (Some ''new'') = JStr ''new''"
    by (simp add: of_id_def)
  have g: "get_workflow failing_save ''wf9'' = Responded 404 ''Not Found'' (Inl ''Unexpected token N'')"
      "\<not> ok 404" "get_workflow (answering JNull) ''wf9'' = Rejected ''Failed to fetch''"
      "''wf9'' \<noteq> []" "''wf9'' \<noteq> ''new''" "take 5 ''wf9'' \<noteq> ''temp_''"
    by (simp_all add: failing_save_def answering_def ok_def)
  have a: "loadWorkflow failing_save (Some ''new'') three_nodes
      = (True, three_nodes \<lparr> selectedWorkflowId := JStr ''new'' \<rparr>, [])"
    using loadWorkflow_degrades [where w = "Some ''new''" and net = failing_save and st = three_nodes] id by simp
  have b: "loadWorkflow failing_save (Some ''wf9'') three_nodes
      = (404 = (404::nat), three_nodes \<lparr> selectedWorkflowId := JStr ''wf9'', nodes := [], edges := [],
                 workflowName := JStr [], workflowDescription := JStr [] \<rparr>, [GetWorkflow ''wf9''])"
    using loadWorkflow_degrades [where s = "''wf9''" and net = failing_save and st = three_nodes and status = 404] g by blast
  have c: "loadWorkflow (answering JNull) (Some ''wf9'') three_nodes
      = (False, three_nodes \<lparr> selectedWorkflowId := JStr ''wf9'', nodes := [], edges := [],
                 workflowName := JStr [], workflowDescription := JStr [] \<rparr>, [GetWorkflow ''wf9''])"
    using loadWorkflow_degrades [where s = "''wf9''" and net = "answering JNull" and m = "''Failed to fetch''" and st = three_nodes] g
    by blast
  from a b c g show ?thesis by simp
qed

text \<open>
  The claim as stated fails for the sentinel: loading \<^verbatim>\<open>new\<close> into a store that holds three
  nodes and three edges leaves them in place.
\<close>

theorem loadWorkflow_new_counterexample:
  "selectedWorkflowId (fst (snd (loadWorkflow failing_save (Some ''new'') three_nodes))) = JStr ''new''
   \<and> length (nodes (fst (snd (loadWorkflow failing_save (Some ''new'') three_nodes)))) = 3
   \<and> length (edges (fst (snd (loadWorkflow failing_save (Some ''new'') three_nodes)))) = 3
   \<and> nodes (fst (snd (loadWorkflow failing_save (Some ''new'') three_nodes))) \<noteq> []
   \<and> snd (snd (loadWorkflow failing_save (Some ''new'') three_nodes)) = []"
  by (simp add: loadWorkflow_def of_id_def three_nodes_def)

section \<open>Save, then execute\<close>

lemma saveWorkflow_rejected:
  assumes "truthy (selectedWorkflowId st)"
    and "post_workflow net (savePayload (selectedWorkflowId st) st) = Rejected m"
  shows "saveWorkflow net st = (Inl m, st, [PostWorkflow (savePayload (selectedWorkflowId st) st)])"
  using assms by (simp add: saveWorkflow_def Let_def)

lemma saveWorkflow_status:
  assumes "truthy (selectedWorkflowId st)"
    and "post_workflow net (savePayload (selectedWorkflowId st) st) = Responded status errorText body"
    and "\<not> ok status"
  shows "saveWorkflow net st
    = (Inl (''Failed to save workflow: '' @ dec status @ '' '' @ errorText), st,
       [PostWorkflow (savePayload (selectedWorkflowId st) st)])"
  using assms by (simp add: saveWorkflow_def Let_def)

lemma truthy_not_nullish: "truthy v \<Longrightarrow> \<not> nullish v"
  by (auto simp: nullish_def)

lemma saveWorkflow_saved:
  assumes "truthy (selectedWorkflowId st)"
    and "post_workflow net (savePayload (selectedWorkflowId st) st) = Responded status errorText (Inr r)"
    and "ok status" and "truthy r"
  shows "\<exists>st1. saveWorkflow net st
          = (Inr r, st1, [PostWorkflow (savePayload (selectedWorkflowId st) st)])
        \<and> nodes st1 = nodes st \<and> edges st1 = edges st"
  using assms truthy_not_nullish [OF assms(4)] by (simp add: saveWorkflow_def Let_def)

text \<open>
  C3, as the code has it. When the save request fails (it is rejected, or answered with a
  status that is not a success), \<^verbatim>\<open>saveAndExecuteWorkflow\<close> returns the failure object
  \<^verbatim>\<open>{success: false, error, message}\<close>, leaves the store as it was and has issued the save
  request only: the execute request is never issued. The object has no \<^verbatim>\<open>type\<close> property;
  after a failure status its \<^verbatim>\<open>error\<close> is \<^verbatim>\<open>Failed to save workflow: <status> <body>\<close>, after
  a rejection it is the transport error's own message, and \<^verbatim>\<open>message\<close> prefixes it with
  \<^verbatim>\<open>Failed to save and execute workflow: \<close>.
\<close>

theorem saveAndExecuteWorkflow_save_fails:
  assumes "truthy (selectedWorkflowId st)"
  shows "(post_workflow net (savePayload (selectedWorkflowId st) st) = Rejected m
       \<longrightarrow> saveAndExecuteWorkflow net q st
           = (failure m, st, [PostWorkflow (savePayload (selectedWorkflowId st) st)]))
    \<and> (post_workflow net (savePayload (selectedWorkflowId st) st) = Responded status errorText body
         \<and> \<not> ok status
       \<longrightarrow> saveAndExecuteWorkflow net q st
           = (failure (''Failed to save workflow: '' @ dec status @ '' '' @ errorText), st,
              [PostWorkflow (savePayload (selectedWorkflowId st) st)]))
    \<and> js_prop (failure e) ''type'' = JUndefined
    \<and> js_prop (failure e) ''success'' = JBool False
    \<and> js_prop (failure e) ''error'' = JStr e
    \<and> js_prop (failure e) ''message'' = JStr (''Failed to save and execute workflow: '' @ e)"
proof -
  have a: "saveAndExecuteWorkflow net q st
      = (failure m, st, [PostWorkflow (savePayload (selectedWorkflowId st) st)])"
    if "post_workflow net (savePayload (selectedWorkflowId st) st) = Rejected m"
    using saveWorkflow_rejected [OF assms that] by (simp add: saveAndExecuteWorkflow_def)
  have b: "saveAndExecuteWorkflow net q st
      = (failure (''Failed to save workflow: '' @ dec status @ '' '' @ errorText), st,
         [PostWorkflow (savePayload (selectedWorkflowId st) st)])"
    if "post_workflow net (savePayload (selectedWorkflowId st) st) = Responded status errorText body"
      and "\<not> ok status"
    using saveWorkflow_status [OF assms that] by (simp add: saveAndExecuteWorkflow_def)
  have c: "js_prop (failure e) ''type'' = JUndefined"
      "js_prop (failure e) ''success'' = JBool False"
      "js_prop (failure e) ''error'' = JStr e"
      "js_prop (failure e) ''message'' = JStr (''Failed to save and execute workflow: '' @ e)"
    by (simp_all add: failure_def get_def)
  from a b c show ?thesis by blast
qed

theorem saveAndExecuteWorkflow_save_fails_witness:
  "truthy (selectedWorkflowId ready)
   \<and> post_workflow failing_save (savePayload (selectedWorkflowId ready) ready)
       = Responded 500 ''Internal Server Error'' (Inl ''Unexpected token I'')
   \<and> \<not> ok 500
   \<and> saveAndExecuteWorkflow failing_save (JStr ''What is 6 x 7?'') ready
       = (failure ''Failed to save workflow: 500 Internal Server Error'', ready,
          [PostWorkflow (savePayload (selectedWorkflowId ready) ready)])"
proof -
  have h: "truthy (selectedWorkflowId ready)"
    by (simp add: ready_def)
  have r: "post_workflow failing_save (savePayload (selectedWorkflowId ready) ready)
       = Responded 500 ''Internal Server Error'' (Inl ''Unexpected token I'')"
    by (simp add: failing_save_def)
  have n: "\<not> ok 500"
    by (simp add: ok_def)
  have d: "''Failed to save workflow: '' @ dec 500 @ '' '' @ ''Internal Server Error''
       = ''Failed to save workflow: 500 Internal Server Error''"
    by simp
  from saveAndExecuteWorkflow_save_fails [OF h, where net = failing_save and status = 500
      and errorText = "''Internal Server Error''" and body = "Inl ''Unexpected token I''"
      and q = "JStr ''What is 6 x 7?''"] r n
  have "saveAndExecuteWorkflow failing_save (JStr ''What is 6 x 7?'') ready
       = (failure (''Failed to save workflow: '' @ dec 500 @ '' '' @ ''Internal Server Error''), ready,
          [PostWorkflow (savePayload (selectedWorkflowId ready) ready)])"
    by blast
  with h r n d show ?thesis by simp
qed

text \<open>
  The claim as stated fails: after a save that fails with status 500 the returned object
  carries no \<^verbatim>\<open>type\<close> at all, and the page's handler labels what it shows with the type
  \<^verbatim>\<open>execute\<close>, as it does for every run.
\<close>

theorem saveAndExecuteWorkflow_type_counterexample:
  "post_workflow failing_save (savePayload (selectedWorkflowId ready) ready)
     = Responded 500 ''Internal Server Error'' (Inl ''Unexpected token I'')
   \<and> js_prop (fst (saveAndExecuteWorkflow failing_save (JStr ''What is 6 x 7?'') ready)) ''type''
       = JUndefined
   \<and> js_prop (fst (saveAndExecuteWorkflow failing_save (JStr ''What is 6 x 7?'') ready)) ''type''
       \<noteq> JStr ''save''
   \<and> js_prop (fst (handleRunWorkflow failing_save ready)) ''type'' = JStr ''execute''
   \<and> js_prop (fst (handleRunWorkflow failing_save ready)) ''error''
       = JStr ''Failed to save workflow: 500 Internal Server Error''"
  by (simp add: handleRunWorkflow_def saveAndExecuteWorkflow_def saveWorkflow_def Let_def
      failing_save_def ready_def ok_def failure_def reported_def get_def js_or_def
      example_node_defs)

lemma find_filter_single: "filter P xs = [x] \<Longrightarrow> find P xs = Some x"
  by (induction xs) (auto split: if_splits)

lemma distinct_nth_other:
  assumes "distinct (map f xs)" and "i < length xs" and "x \<in> set xs" and "xs ! i \<noteq> x"
  shows "f (xs ! i) \<noteq> f x"
proof -
  from assms(1) have "inj_on f (set xs)"
    by (simp add: distinct_map)
  with assms(2-4) show ?thesis
    by (auto dest: inj_onD)
qed

lemma saveWorkflow_graph:
  "nodes (fst (snd (saveWorkflow net st))) = nodes st
   \<and> edges (fst (snd (saveWorkflow net st))) = edges st"
  by (simp add: saveWorkflow_def Let_def split: reply.splits sum.splits)

lemma writeResult_edges: "edges (writeResult x st st1) = edges st1"
  by (simp add: writeResult_def updateNodeConfig_def split: option.splits)

lemma saveAndExecuteWorkflow_edges:
  "edges (fst (snd (saveAndExecuteWorkflow net q st))) = edges st"
proof -
  obtain r st1 reqs where s: "saveWorkflow net st = (r, st1, reqs)"
    by (cases "saveWorkflow net st")
  with saveWorkflow_graph [of net st] have "edges st1 = edges st"
    by simp
  then show ?thesis
    by (simp add: saveAndExecuteWorkflow_def s Let_def writeResult_edges
        split: reply.splits sum.splits)
qed

text \<open>The nodes after the operation: as they were, or with the one update.\<close>

lemma saveAndExecuteWorkflow_nodes:
  "nodes (fst (snd (saveAndExecuteWorkflow net q st))) =
     (case post_execute net \<lparr> x_stack_id = selectedWorkflowId st, x_query = q \<rparr> of
        Responded s t (Inr ex) \<Rightarrow>
          if nodes (fst (snd (saveAndExecuteWorkflow net q st))) \<noteq> nodes st
          then (case find (\<lambda>n. is_str (ntype n) ''outputNode'') (nodes st) of
                  Some w \<Rightarrow>
                    if ok s \<and> truthy (js_prop ex ''result'')
                    then map (\<lambda>n. if nid n = nid w
                            then n \<lparr> data := (data n)(''config'' \<mapsto>
                                   JObj ((spread (config n))(''output'' \<mapsto> js_prop ex ''result''))) \<rparr>
                            else n) (nodes st)
                    else nodes st
                | None \<Rightarrow> nodes st)
          else nodes st
      | _ \<Rightarrow> nodes st)"
proof -
  obtain r st1 reqs where s: "saveWorkflow net st = (r, st1, reqs)"
    by (cases "saveWorkflow net st")
  with saveWorkflow_graph [of net st] have n: "nodes st1 = nodes st"
    by simp
  show ?thesis
    by (simp add: saveAndExecuteWorkflow_def s Let_def writeResult_def updateNodeConfig_def n
        split: reply.splits sum.splits option.splits)
qed

text \<open>
  C7, as the code has it. When the save succeeds and the execute response carries a
  truthy \<^verbatim>\<open>result\<close> (a non-empty string), the operation succeeds after the two requests,
  and in a graph with a single Output node and unique identifiers the Output node becomes
  the same node with \<^verbatim>\<open>config.output\<close> set to the result: its identifier, type, position,
  other data and other configuration keys, every other node and the edges stay as they
  were. A response whose \<^verbatim>\<open>result\<close> is empty or otherwise falsy writes nothing. For every
  input the edges are unchanged, and the nodes are either unchanged or changed by that one
  update, of the configuration of the node that has the identifier of the first Output
  node, after an execute response with a truthy \<^verbatim>\<open>result\<close>.
\<close>

theorem saveAndExecuteWorkflow_writes_output:
  "(truthy (selectedWorkflowId st)
      \<and> post_workflow net (savePayload (selectedWorkflowId st) st)
           = Responded s1 t1 (Inr saveResult)
      \<and> ok s1 \<and> truthy saveResult
      \<and> post_execute net \<lparr> x_stack_id = selectedWorkflowId st, x_query = q \<rparr>
           = Responded s2 t2 (Inr executeResult)
      \<and> ok s2
      \<and> truthy (js_prop executeResult ''result'')
      \<and> filter (\<lambda>n. is_str (ntype n) ''outputNode'') (nodes st) = [out]
      \<and> distinct (map nid (nodes st))
    \<longrightarrow> fst (saveAndExecuteWorkflow net q st) = succeeded saveResult executeResult
      \<and> snd (snd (saveAndExecuteWorkflow net q st))
          = [PostWorkflow (savePayload (selectedWorkflowId st) st),
             PostExecute \<lparr> x_stack_id = selectedWorkflowId st, x_query = q \<rparr>]
      \<and> length (nodes (fst (snd (saveAndExecuteWorkflow net q st)))) = length (nodes st)
      \<and> (\<forall>i < length (nodes st).
           (nodes st ! i = out \<longrightarrow>
              nodes (fst (snd (saveAndExecuteWorkflow net q st))) ! i
                = out \<lparr> data := (data out)(''config'' \<mapsto>
                    JObj ((spread (config out))(''output'' \<mapsto> js_prop executeResult ''result''))) \<rparr>
            \<and> js_prop (config (nodes (fst (snd (saveAndExecuteWorkflow net q st))) ! i)) ''output''
                = js_prop executeResult ''result''
            \<and> nid (nodes (fst (snd (saveAndExecuteWorkflow net q st))) ! i) = nid out
            \<and> ntype (nodes (fst (snd (saveAndExecuteWorkflow net q st))) ! i) = ntype out
            \<and> position (nodes (fst (snd (saveAndExecuteWorkflow net q st))) ! i) = position out
            \<and> (\<forall>k. k \<noteq> ''config'' \<longrightarrow>
                  data (nodes (fst (snd (saveAndExecuteWorkflow net q st))) ! i) k = data out k)
            \<and> (\<forall>k. k \<noteq> ''output'' \<longrightarrow>
                  js_prop (config (nodes (fst (snd (saveAndExecuteWorkflow net q st))) ! i)) k
                    = get (spread (config out)) k))
         \<and> (nodes st ! i \<noteq> out \<longrightarrow>
              nodes (fst (snd (saveAndExecuteWorkflow net q st))) ! i = nodes st ! i)))
   \<and> (post_execute net \<lparr> x_stack_id = selectedWorkflowId st, x_query = q \<rparr>
           = Responded s2 t2 (Inr executeResult)
      \<and> \<not> truthy (js_prop executeResult ''result'')
    \<longrightarrow> nodes (fst (snd (saveAndExecuteWorkflow net q st))) = nodes st)
   \<and> edges (fst (snd (saveAndExecuteWorkflow net q st))) = edges st
   \<and> (nodes (fst (snd (saveAndExecuteWorkflow net q st))) = nodes st
      \<or> (\<exists>s t ex w.
            post_execute net \<lparr> x_stack_id = selectedWorkflowId st, x_query = q \<rparr>
              = Responded s t (Inr ex)
          \<and> ok s \<and> truthy (js_prop ex ''result'')
          \<and> find (\<lambda>n. is_str (ntype n) ''outputNode'') (nodes st) = Some w
          \<and> nodes (fst (snd (saveAndExecuteWorkflow net q st)))
              = map (\<lambda>n. if nid n = nid w
                      then n \<lparr> data := (data n)(''config'' \<mapsto>
                             JObj ((spread (config n))(''output'' \<mapsto> js_prop ex ''result''))) \<rparr>
                      else n) (nodes st)))"
proof -
  let ?p = "savePayload (selectedWorkflowId st) st"
  let ?x = "\<lparr> x_stack_id = selectedWorkflowId st, x_query = q \<rparr>"
  let ?r = "js_prop executeResult ''result''"
  let ?R = "saveAndExecuteWorkflow net q st"
  let ?out = "out \<lparr> data := (data out)(''config'' \<mapsto> JObj ((spread (config out))(''output'' \<mapsto> ?r))) \<rparr>"
  have A: "fst ?R = succeeded saveResult executeResult
      \<and> snd (snd ?R) = [PostWorkflow ?p, PostExecute ?x]
      \<and> length (nodes (fst (snd ?R))) = length (nodes st)
      \<and> (\<forall>i < length (nodes st).
           (nodes st ! i = out \<longrightarrow>
              nodes (fst (snd ?R)) ! i = ?out
            \<and> js_prop (config (nodes (fst (snd ?R)) ! i)) ''output'' = ?r
            \<and> nid (nodes (fst (snd ?R)) ! i) = nid out
            \<and> ntype (nodes (fst (snd ?R)) ! i) = ntype out
            \<and> position (nodes (fst (snd ?R)) ! i) = position out
            \<and> (\<forall>k. k \<noteq> ''config'' \<longrightarrow> data (nodes (fst (snd ?R)) ! i) k = data out k)
            \<and> (\<forall>k. k \<noteq> ''output'' \<longrightarrow>
                  js_prop (config (nodes (fst (snd ?R)) ! i)) k = get (spread (config out)) k))
         \<and> (nodes st ! i \<noteq> out \<longrightarrow> nodes (fst (snd ?R)) ! i = nodes st ! i))"
    if h: "truthy (selectedWorkflowId st)"
      "post_workflow net ?p = Responded s1 t1 (Inr saveResult)"
      "ok s1" "truthy saveResult"
      "post_execute net ?x = Responded s2 t2 (Inr executeResult)"
      "ok s2" "truthy ?r"
      "filter (\<lambda>n. is_str (ntype n) ''outputNode'') (nodes st) = [out]"
      "distinct (map nid (nodes st))"
  proof -
    from saveWorkflow_saved [OF h(1-4)] obtain st1
      where st1: "saveWorkflow net st = (Inr saveResult, st1, [PostWorkflow ?p])"
        "nodes st1 = nodes st" "edges st1 = edges st"
      by blast
    from h(7) have nn: "\<not> nullish executeResult"
      by (auto simp: nullish_def)
    from find_filter_single [OF h(8)]
    have f: "find (\<lambda>n. is_str (ntype n) ''outputNode'') (nodes st) = Some out" .
    have run: "?R = (succeeded saveResult executeResult,
           updateNodeConfig (nid out) [''output'' \<mapsto> ?r] st1,
           [PostWorkflow ?p, PostExecute ?x])"
      using st1(1) h(1,4,5,6,7) nn f
      by (simp add: saveAndExecuteWorkflow_def Let_def writeResult_def)
    have mem: "out \<in> set (nodes st)"
    proof -
      have "out \<in> set (filter (\<lambda>n. is_str (ntype n) ''outputNode'') (nodes st))"
        by (simp add: h(8))
      then show ?thesis by simp
    qed
    have other: "nid (nodes st ! i) \<noteq> nid out"
      if "i < length (nodes st)" "nodes st ! i \<noteq> out" for i
      using distinct_nth_other [OF h(9) that(1) mem that(2)] .
    have upd: "js_prop (config (n \<lparr> data := (data n)(''config'' \<mapsto>
                  JObj ((spread (config n))(''output'' \<mapsto> ?r))) \<rparr>)) k
        = (if k = ''output'' then ?r else get (spread (config n)) k)" for n k
      by (simp add: config_def get_def)
    show ?thesis
      unfolding run
      using other
      by (auto simp: updateNodeConfig_def st1(2,3) upd)
  qed
  note n = saveAndExecuteWorkflow_nodes [of net q st]
  have B: "nodes (fst (snd ?R)) = nodes st"
    if "post_execute net ?x = Responded s2 t2 (Inr executeResult)" "\<not> truthy ?r"
    using n that by (simp split: option.splits if_splits)
  have C: "edges (fst (snd ?R)) = edges st"
    by (rule saveAndExecuteWorkflow_edges)
  have D: "nodes (fst (snd ?R)) = nodes st
      \<or> (\<exists>s t ex w. post_execute net ?x = Responded s t (Inr ex)
          \<and> ok s \<and> truthy (js_prop ex ''result'')
          \<and> find (\<lambda>n. is_str (ntype n) ''outputNode'') (nodes st) = Some w
          \<and> nodes (fst (snd ?R))
              = map (\<lambda>n. if nid n = nid w
                      then n \<lparr> data := (data n)(''config'' \<mapsto>
                             JObj ((spread (config n))(''output'' \<mapsto> js_prop ex ''result''))) \<rparr>
                      else n) (nodes st))"
  proof (cases "nodes (fst (snd ?R)) = nodes st")
    case True
    then show ?thesis by simp
  next
    case False
    with n show ?thesis
      by (auto split: reply.splits sum.splits option.splits if_splits)
  qed
  from A B C D show ?thesis by blast
qed

theorem saveAndExecuteWorkflow_writes_output_witness:
  "truthy (selectedWorkflowId ready)
   \<and> ok 200
   \<and> truthy (js_prop (JObj [''result'' \<mapsto> JStr ''42'']) ''result'')
   \<and> filter (\<lambda>n. is_str (ntype n) ''outputNode'') (nodes ready) = [output_only]
   \<and> distinct (map nid (nodes ready))
   \<and> nodes ready ! 2 = output_only
   \<and> js_prop (config (nodes (fst (snd (saveAndExecuteWorkflow (answering (JStr ''42''))
          (JStr ''What is 6 x 7?'') ready))) ! 2)) ''output'' = JStr ''42''
   \<and> nodes (fst (snd (saveAndExecuteWorkflow (answering (JStr ''42''))
          (JStr ''What is 6 x 7?'') ready))) ! 2
       = output_only \<lparr> data := (data output_only)(''config'' \<mapsto>
            JObj ((spread (config output_only))(''output'' \<mapsto> JStr ''42''))) \<rparr>
   \<and> nodes (fst (snd (saveAndExecuteWorkflow (answering (JStr ''42''))
          (JStr ''What is 6 x 7?'') ready))) ! 1 = nodes ready ! 1
   \<and> \<not> truthy (js_prop (JObj [''result'' \<mapsto> JNull]) ''result'')
   \<and> nodes (fst (snd (saveAndExecuteWorkflow (answering JNull)
          (JStr ''What is 6 x 7?'') ready))) = nodes ready"
proof -
  let ?q = "JStr ''What is 6 x 7?''"
  have h: "truthy (selectedWorkflowId ready)"
      "post_workflow (answering (JStr ''42'')) (savePayload (selectedWorkflowId ready) ready)
         = Responded 200 ''{}'' (Inr (JObj [''stack_id'' \<mapsto> JStr ''wf1'']))"
      "ok 200" "truthy (JObj [''stack_id'' \<mapsto> JStr ''wf1''])"
      "post_execute (answering (JStr ''42'')) \<lparr> x_stack_id = selectedWorkflowId ready, x_query = ?q \<rparr>
         = Responded 200 ''{}'' (Inr (JObj [''result'' \<mapsto> JStr ''42'']))"
      "ok 200"
      "truthy (js_prop (JObj [''result'' \<mapsto> JStr ''42'']) ''result'')"
    by (simp_all add: ready_def answering_def ok_def savePayload_def Let_def get_def)
  have g: "filter (\<lambda>n. is_str (ntype n) ''outputNode'') (nodes ready) = [output_only]"
      "distinct (map nid (nodes ready))"
    by (simp_all add: ready_def example_node_defs)
  have i: "2 < length (nodes ready)" "nodes ready ! 2 = output_only"
      "1 < length (nodes ready)" "nodes ready ! 1 \<noteq> output_only"
    by (simp_all add: ready_def example_node_defs)
  have r: "js_prop (JObj [''result'' \<mapsto> JStr ''42'']) ''result'' = JStr ''42''"
    by (simp add: get_def)
  have e: "post_execute (answering JNull) \<lparr> x_stack_id = selectedWorkflowId ready, x_query = ?q \<rparr>
         = Responded 200 ''{}'' (Inr (JObj [''result'' \<mapsto> JNull]))"
      "\<not> truthy (js_prop (JObj [''result'' \<mapsto> JNull]) ''result'')"
    by (simp_all add: answering_def get_def)
  note t = saveAndExecuteWorkflow_writes_output [where st = ready
      and net = "answering (JStr ''42'')" and q = ?q and ?s1.0 = 200 and ?t1.0 = "''{}''"
      and saveResult = "JObj [''stack_id'' \<mapsto> JStr ''wf1'']" and ?s2.0 = 200 and ?t2.0 = "''{}''"
      and executeResult = "JObj [''result'' \<mapsto> JStr ''42'']" and out = output_only]
  from t h g have u: "\<forall>i < length (nodes ready).
       (nodes ready ! i = output_only \<longrightarrow>
          nodes (fst (snd (saveAndExecuteWorkflow (answering (JStr ''42'')) ?q ready))) ! i
            = output_only \<lparr> data := (data output_only)(''config'' \<mapsto>
                JObj ((spread (config output_only))
                  (''output'' \<mapsto> js_prop (JObj [''result'' \<mapsto> JStr ''42'']) ''result''))) \<rparr>
        \<and> js_prop (config (nodes (fst (snd (saveAndExecuteWorkflow (answering (JStr ''42''))
              ?q ready))) ! i)) ''output''
            = js_prop (JObj [''result'' \<mapsto> JStr ''42'']) ''result'')
     \<and> (nodes ready ! i \<noteq> output_only \<longrightarrow>
          nodes (fst (snd (saveAndExecuteWorkflow (answering (JStr ''42'')) ?q ready))) ! i
            = nodes ready ! i)"
    by blast
  from u i(1,2) have a: "nodes (fst (snd (saveAndExecuteWorkflow
        (answering (JStr ''42'')) ?q ready))) ! 2
        = output_only \<lparr> data := (data output_only)(''config'' \<mapsto>
            JObj ((spread (config output_only))
              (''output'' \<mapsto> js_prop (JObj [''result'' \<mapsto> JStr ''42'']) ''result''))) \<rparr>"
      and b: "js_prop (config (nodes (fst (snd (saveAndExecuteWorkflow
        (answering (JStr ''42'')) ?q ready))) ! 2)) ''output''
        = js_prop (JObj [''result'' \<mapsto> JStr ''42'']) ''result''"
    by blast+
  from u i(3,4) have c: "nodes (fst (snd (saveAndExecuteWorkflow
        (answering (JStr ''42'')) ?q ready))) ! 1 = nodes ready ! 1"
    by blast
  have d: "nodes (fst (snd (saveAndExecuteWorkflow (answering JNull) ?q ready))) = nodes ready"
    using saveAndExecuteWorkflow_writes_output [where st = ready and net = "answering JNull"
        and q = ?q and ?s2.0 = 200 and ?t2.0 = "''{}''"
        and executeResult = "JObj [''result'' \<mapsto> JNull]"] e
    by blast
  show ?thesis
    using h(1,3,7) g i(2) a b c d e(2) unfolding r by simp
qed

text \<open>
  The claim as stated fails for a response whose \<^verbatim>\<open>result\<close> is the empty string: the run
  succeeds, and the Output node keeps the text it had.
\<close>

theorem saveAndExecuteWorkflow_empty_result_counterexample:
  "js_prop (fst (saveAndExecuteWorkflow (answering (JStr [])) (JStr ''What is 6 x 7?'') ready))
       ''success'' = JBool True
   \<and> js_prop (js_prop (fst (saveAndExecuteWorkflow (answering (JStr []))
        (JStr ''What is 6 x 7?'') ready)) ''executeResult'') ''result'' = JStr []
   \<and> filter (\<lambda>n. is_str (ntype n) ''outputNode'') (nodes ready) = [nodes ready ! 2]
   \<and> js_prop (config (nodes (fst (snd (saveAndExecuteWorkflow (answering (JStr []))
          (JStr ''What is 6 x 7?'') ready))) ! 2)) ''output''
       = JStr ''Workflow output will appear here.''
   \<and> js_prop (config (nodes (fst (snd (saveAndExecuteWorkflow (answering (JStr []))
          (JStr ''What is 6 x 7?'') ready))) ! 2)) ''output'' \<noteq> JStr []"
  by (simp add: saveAndExecuteWorkflow_def saveWorkflow_def Let_def writeResult_def
      answering_def ready_def ok_def succeeded_def get_def nullish_def savePayload_def
      example_node_defs)

section \<open>The validation before a run\<close>









section \<open>The round trip through the editor's shape\<close>

lemma insert_index_last:
  assumes "list_all (\<lambda>e. case index_of (fst e) of Some m \<Rightarrow> m < n | None \<Rightarrow> False) d"
  shows "insert_index n kv d = d @ [kv]"
  using assms by (induction d) (auto split: option.splits)

lemma enumerated_before:
  assumes "enumerated (xs @ k # ys)" and "index_of k = Some n"
  shows "list_all (\<lambda>j. case index_of j of Some m \<Rightarrow> m < n | None \<Rightarrow> False) xs"
  using assms
proof (induction xs)
  case Nil
  then show ?case by simp
next
  case (Cons x xs)
  from Cons.prems(1) have rest: "enumerated (xs @ k # ys)"
    by simp
  show ?case
  proof (cases "index_of x")
    case None
    with Cons.prems(1) have "index_of k = None"
      by simp
    with Cons.prems(2) show ?thesis
      by simp
  next
    case (Some m)
    with Cons.prems have "m < n"
      by simp
    with Some Cons.IH [OF rest Cons.prems(2)] show ?thesis
      by simp
  qed
qed

lemma assign_next:
  assumes "k \<noteq> ''__proto__''" and "k \<notin> fst ` set d" and "enumerated (map fst d @ k # ys)"
  shows "assign k v d = d @ [(k, v)]"
proof -
  from assms(2) have fresh: "map_of d k = None"
    by (simp add: map_of_eq_None_iff)
  show ?thesis
  proof (cases "index_of k")
    case None
    with assms(1) fresh show ?thesis
      by (simp add: assign_def)
  next
    case (Some n)
    from enumerated_before [OF assms(3) Some]
    have "list_all (\<lambda>e. case index_of (fst e) of Some m \<Rightarrow> m < n | None \<Rightarrow> False) d"
      by (simp add: list_all_iff)
    from insert_index_last [OF this] Some assms(1) fresh show ?thesis
      by (simp add: assign_def)
  qed
qed

lemma fold_assign:
  assumes "distinct (map fst acc @ map f ns)" and "''__proto__'' \<notin> f ` set ns"
    and "enumerated (map fst acc @ map f ns)"
  shows "fold (\<lambda>n d. assign (f n) (g n) d) ns acc = acc @ map (\<lambda>n. (f n, g n)) ns"
  using assms
proof (induction ns arbitrary: acc)
  case Nil
  then show ?case by simp
next
  case (Cons n ns)
  from Cons.prems have "f n \<noteq> ''__proto__''" "f n \<notin> fst ` set acc"
      "enumerated (map fst acc @ f n # map f ns)"
    by auto
  then have step: "assign (f n) (g n) acc = acc @ [(f n, g n)]"
    by (rule assign_next)
  from Cons.prems have "distinct (map fst (acc @ [(f n, g n)]) @ map f ns)"
      "''__proto__'' \<notin> f ` set ns" "enumerated (map fst (acc @ [(f n, g n)]) @ map f ns)"
    by simp_all
  then have "fold (\<lambda>n d. assign (f n) (g n) d) ns (acc @ [(f n, g n)])
      = (acc @ [(f n, g n)]) @ map (\<lambda>n. (f n, g n)) ns"
    by (rule Cons.IH)
  with step show ?case
    by simp
qed

lemma fold_assign_empty:
  assumes "distinct (map f ns)" and "''__proto__'' \<notin> set (map f ns)" and "enumerated (map f ns)"
  shows "fold (\<lambda>n d. assign (f n) (g n) d) ns [] = map (\<lambda>n. (f n, g n)) ns"
  using fold_assign [of "[]" f ns g] assms by simp

lemma keep_undefined: "keep (f(k \<mapsto> JUndefined)) = (keep f)(k := None)"
  by (auto simp: keep_def fun_eq_iff)

lemma keep_update: "\<not> dropped v \<Longrightarrow> keep (f(k \<mapsto> v)) = (keep f)(k \<mapsto> v)"
  by (auto simp: keep_def fun_eq_iff)

lemma keep_fixed_member:
  assumes "keep (map_option toJSON \<circ> d) = d" and "d k = Some v"
  shows "toJSON v = v"
proof -
  from assms(1) have "keep (map_option toJSON \<circ> d) k = d k"
    by simp
  with assms(2) show ?thesis
    by (simp add: keep_def split: if_splits)
qed

lemma backend_inverse:
  assumes "map_of backend_types s = Some t"
  shows "map_of frontend_types t = Some s \<and> t \<noteq> [] \<and> s \<noteq> []"
proof -
  from assms have "(s, t) \<in> set backend_types"
    by (rule map_of_SomeD)
  then have "(s, t) = (''userQuery'', ''userQueryNode'') \<or> (s, t) = (''output'', ''outputNode'')
      \<or> (s, t) = (''llmEngine'', ''llmNode'') \<or> (s, t) = (''knowledgeBase'', ''knowledgeBaseNode'')
      \<or> (s, t) = (''webSearch'', ''webSearchNode'')"
    by (simp add: backend_types_def)
  then show ?thesis
    by (elim disjE) (simp_all add: frontend_types_def)
qed

lemma lookup_unknown:
  assumes "map_of tbl s = None" and "s \<notin> set object_prototype"
  shows "lookup tbl (JStr s) = JUndefined"
  using assms by (simp add: lookup_def)

lemma lookup_known:
  assumes "map_of tbl s = Some t"
  shows "lookup tbl (JStr s) = JStr t"
  using assms by (simp add: lookup_def)

lemma back_and_forth:
  assumes "s \<notin> set (map fst frontend_types)" and "s \<notin> set object_prototype"
  shows "convertNodeType (convertBackendNodeType (JStr s)) = JStr s"
proof (cases "map_of backend_types s")
  case None
  have f: "map_of frontend_types s = None"
    using assms(1) by (simp add: map_of_eq_None_iff)
  show ?thesis
    by (simp add: convertNodeType_def convertBackendNodeType_def js_or_def
        lookup_unknown [OF None assms(2)] lookup_unknown [OF f assms(2)])
next
  case (Some t)
  from backend_inverse [OF Some]
  have i: "map_of frontend_types t = Some s" "t \<noteq> []" "s \<noteq> []"
    by simp_all
  show ?thesis
    by (simp add: convertNodeType_def convertBackendNodeType_def js_or_def
        lookup_known [OF Some] lookup_known [OF i(1)] i)
qed

lemma node_round_trip:
  assumes "normal_wire_node (k, n)"
  shows "nid (editor_node n) = k" and "node_json (wire_node (editor_node n)) = n"
proof -
  from assms obtain s m where
    k: "k = nid n" and json: "node_json n = n" and pos: "truthy (position n)"
    and t: "ntype n = JStr s" "s \<notin> set (map fst frontend_types)" "s \<notin> set object_prototype"
    and dt: "data n ''type'' = Some (JStr s)"
    and cfg: "data n ''config'' = Some (JObj m)" "m ''uploadedFile'' = None"
    by (auto simp: normal_wire_node_def split: jsval.splits option.splits)
  show "nid (editor_node n) = k"
    by (simp add: editor_node_def k)
  from json have fixed: "member (position n) = position n"
      "keep (map_option toJSON \<circ> data n) = data n"
    by (simp_all add: node_json_def) (metis node.select_convs(3), metis node.select_convs(4))
  let ?b = "convertBackendNodeType (JStr s)"
  have bf: "convertNodeType ?b = JStr s"
    by (rule back_and_forth [OF t(2,3)])
  have ty: "convertNodeType (js_or ?b ?b) = JStr s"
    by (simp add: js_or_def bf)
  have ed: "editor_node n = \<lparr> nid = nid n, ntype = ?b, position = position n,
      data = (data n)(''type'' \<mapsto> ?b) \<rparr>"
    using pos by (simp add: editor_node_def t(1) dt get_def js_or_def)
  have inner: "keep (map_option toJSON \<circ> m) = m"
  proof -
    from keep_fixed_member [OF fixed(2) cfg(1)] have "toJSON (JObj m) = JObj m" .
    then show ?thesis by simp
  qed
  have c: "toJSON (JObj (m(''uploadedFile'' \<mapsto> JUndefined))) = JObj m"
  proof -
    have "(keep (map_option toJSON \<circ> m))(''uploadedFile'' := None) = m"
      unfolding inner using cfg(2) by (simp add: fun_upd_idem)
    then show ?thesis
      by (simp add: keep_undefined)
  qed
  have w: "wire_node (editor_node n) = \<lparr> nid = nid n, ntype = JStr s, position = position n,
      data = (data n)(''type'' \<mapsto> JStr s,
                      ''config'' \<mapsto> JObj (m(''uploadedFile'' \<mapsto> JUndefined))) \<rparr>"
    unfolding ed using ty by (simp add: wire_node_def config_def get_def cfg(1))
  have d: "keep (map_option toJSON \<circ> (data n)(''type'' \<mapsto> JStr s,
             ''config'' \<mapsto> JObj (m(''uploadedFile'' \<mapsto> JUndefined)))) = data n"
  proof -
    have "keep (map_option toJSON \<circ> (data n)(''type'' \<mapsto> JStr s,
             ''config'' \<mapsto> JObj (m(''uploadedFile'' \<mapsto> JUndefined))))
        = (keep (map_option toJSON \<circ> data n))(''type'' \<mapsto> JStr s, ''config'' \<mapsto> JObj m)"
      using c by (simp add: keep_update)
    also have "\<dots> = data n"
      unfolding fixed(2) using dt cfg(1) by (auto simp: fun_eq_iff)
    finally show ?thesis .
  qed
  have "node_json (wire_node (editor_node n))
      = \<lparr> nid = nid n, ntype = JStr s, position = position n, data = data n \<rparr>"
    unfolding w using d fixed(1) by (simp add: node_json_def member_def)
  also have "\<dots> = n"
    using t(1) by simp
  finally show "node_json (wire_node (editor_node n)) = n" .
qed

lemma edge_round_trip:
  assumes "normal_wire_edge (k, e)"
  shows "eid (editor_edge e) = k" and "edge_json (wire_edge (editor_edge e)) = e"
proof -
  from assms have k: "k = eid e" and json: "edge_json e = e"
    and h: "null_or_truthy (sourceHandle e)" "null_or_truthy (targetHandle e)"
    and t: "truthy (etype e)" "truthy (edata e)"
    and u: "animated e = JUndefined" "style e = JUndefined"
    by (simp_all add: normal_wire_edge_def)
  show "eid (editor_edge e) = k"
    by (simp add: editor_edge_def k)
  have w: "wire_edge (editor_edge e) = e"
    using h t u
    by (cases e) (auto simp: wire_edge_def editor_edge_def js_or_def null_or_truthy_def
        split: if_splits)
  show "edge_json (wire_edge (editor_edge e)) = e"
    unfolding w by (rule json)
qed

lemma nodes_round_trip:
  assumes "distinct (map fst x)" and "list_all normal_wire_node x"
    and "''__proto__'' \<notin> set (map fst x)" and "enumerated (map fst x)"
  shows "nodes_json (nodesToDict (dictToNodes (Some x))) = x"
proof -
  let ?ns = "map (\<lambda>(k, n). editor_node n) x"
  have ids: "map nid ?ns = map fst x"
    using assms(2) by (auto simp: list_all_iff dest: node_round_trip(1))
  have "distinct (map nid ?ns)" "''__proto__'' \<notin> set (map nid ?ns)" "enumerated (map nid ?ns)"
    unfolding ids by (rule assms(1), rule assms(3), rule assms(4))
  from fold_assign_empty [OF this, of wire_node]
  have "nodesToDict ?ns = map (\<lambda>n. (nid n, wire_node n)) ?ns"
    unfolding nodesToDict_def by simp
  then have "nodes_json (nodesToDict ?ns)
      = map (\<lambda>(k, n). (nid (editor_node n), node_json (wire_node (editor_node n)))) x"
    by (simp add: nodes_json_def split_def comp_def)
  also have "\<dots> = map (\<lambda>kn. kn) x"
    using assms(2) by (intro map_cong) (auto simp: list_all_iff dest: node_round_trip)
  finally show ?thesis
    by (simp add: dictToNodes_def)
qed

lemma edges_round_trip:
  assumes "distinct (map fst y)" and "list_all normal_wire_edge y"
    and "''__proto__'' \<notin> set (map fst y)" and "enumerated (map fst y)"
  shows "edges_json (edgesToDict (dictToEdges (Some y))) = y"
proof -
  let ?es = "map (\<lambda>(k, e). editor_edge e) y"
  have ids: "map eid ?es = map fst y"
    using assms(2) by (auto simp: list_all_iff dest: edge_round_trip(1))
  have "distinct (map eid ?es)" "''__proto__'' \<notin> set (map eid ?es)" "enumerated (map eid ?es)"
    unfolding ids by (rule assms(1), rule assms(3), rule assms(4))
  from fold_assign_empty [OF this, of wire_edge]
  have "edgesToDict ?es = map (\<lambda>e. (eid e, wire_edge e)) ?es"
    unfolding edgesToDict_def by simp
  then have "edges_json (edgesToDict ?es)
      = map (\<lambda>(k, e). (eid (editor_edge e), edge_json (wire_edge (editor_edge e)))) y"
    by (simp add: edges_json_def split_def comp_def)
  also have "\<dots> = map (\<lambda>ke. ke) y"
    using assms(2) by (intro map_cong) (auto simp: list_all_iff dest: edge_round_trip)
  finally show ?thesis
    by (simp add: dictToEdges_def)
qed

text \<open>
  C4, as the code has it. Converting a wire graph to the editable shape, back to the wire
  shape and serialising it gives the same graph when the graph is in the form the store
  itself sends: dictionaries with distinct keys in an object's enumeration order, none of
  them \<^verbatim>\<open>__proto__\<close>, whose entries are normal wire nodes and normal wire edges. In any case
  an edge type that is set (truthy) survives the two conversions of an edge.
\<close>

theorem wire_round_trip:
  "(distinct (map fst x) \<and> ''__proto__'' \<notin> set (map fst x) \<and> enumerated (map fst x)
      \<and> list_all normal_wire_node x
      \<longrightarrow> nodes_json (nodesToDict (dictToNodes (Some x))) = x)
   \<and> (distinct (map fst y) \<and> ''__proto__'' \<notin> set (map fst y) \<and> enumerated (map fst y)
      \<and> list_all normal_wire_edge y
      \<longrightarrow> edges_json (edgesToDict (dictToEdges (Some y))) = y)
   \<and> (truthy (etype e) \<longrightarrow> etype (wire_edge (editor_edge e)) = etype e)"
proof -
  have "truthy (etype e) \<longrightarrow> etype (wire_edge (editor_edge e)) = etype e"
    by (simp add: wire_edge_def editor_edge_def js_or_def)
  with nodes_round_trip [of x] edges_round_trip [of y] show ?thesis
    by blast
qed

lemma keep_empty: "keep Map.empty = Map.empty"
  by (simp add: keep_def fun_eq_iff)

lemmas wire_defs =
  nodes_json_def edges_json_def nodesToDict_def edgesToDict_def dictToNodes_def
  dictToEdges_def node_json_def edge_json_def wire_node_def wire_edge_def editor_node_def
  editor_edge_def convertNodeType_def convertBackendNodeType_def lookup_def
  frontend_types_def backend_types_def object_prototype_def js_or_def member_def
  config_def get_def keep_update keep_empty keep_undefined assign_def index_of_def

theorem wire_round_trip_witness:
  "distinct (map fst wire_nodes) \<and> ''__proto__'' \<notin> set (map fst wire_nodes)
   \<and> enumerated (map fst wire_nodes) \<and> list_all normal_wire_node wire_nodes
   \<and> distinct (map fst wire_edges) \<and> ''__proto__'' \<notin> set (map fst wire_edges)
   \<and> enumerated (map fst wire_edges) \<and> list_all normal_wire_edge wire_edges
   \<and> truthy (etype (snd (wire_edges ! 0)))
   \<and> nodes_json (nodesToDict (dictToNodes (Some wire_nodes))) = wire_nodes
   \<and> edges_json (edgesToDict (dictToEdges (Some wire_edges))) = wire_edges
   \<and> etype (wire_edge (editor_edge (snd (wire_edges ! 0)))) = JStr ''step''"
proof -
  have n: "distinct (map fst wire_nodes)" "''__proto__'' \<notin> set (map fst wire_nodes)"
      "enumerated (map fst wire_nodes)" "list_all normal_wire_node wire_nodes"
    by (simp_all add: wire_nodes_def normal_wire_node_def wire_defs)
  have e: "distinct (map fst wire_edges)" "''__proto__'' \<notin> set (map fst wire_edges)"
      "enumerated (map fst wire_edges)" "list_all normal_wire_edge wire_edges"
      "truthy (etype (snd (wire_edges ! 0)))"
    by (simp_all add: wire_edges_def normal_wire_edge_def null_or_truthy_def wire_defs)
  have t: "etype (snd (wire_edges ! 0)) = JStr ''step''"
    by (simp add: wire_edges_def)
  from wire_round_trip [of wire_nodes wire_edges "snd (wire_edges ! 0)"] n e
  have "nodes_json (nodesToDict (dictToNodes (Some wire_nodes))) = wire_nodes"
      "edges_json (edgesToDict (dictToEdges (Some wire_edges))) = wire_edges"
      "etype (wire_edge (editor_edge (snd (wire_edges ! 0)))) = etype (snd (wire_edges ! 0))"
    by blast+
  with n e t show ?thesis by simp
qed

text \<open>
  The claim as stated fails on dictionaries keyed by identifier that are not in that
  form. A node in the shape \<^verbatim>\<open>data: {...config, type}\<close> comes back with an added empty
  \<^verbatim>\<open>config\<close> object; a node whose type is the editor's name \<^verbatim>\<open>llmNode\<close> comes back as
  \<^verbatim>\<open>llmEngine\<close>; an edge without handles and type comes back with \<^verbatim>\<open>null\<close> handles and the
  default type; a normal wire node stored under the key \<^verbatim>\<open>__proto__\<close> is lost.
\<close>

theorem wire_round_trip_counterexample:
  "distinct (map fst flat_node) \<and> fst (flat_node ! 0) = nid (snd (flat_node ! 0))
   \<and> data (snd (flat_node ! 0)) ''config'' = None
   \<and> data (snd (nodes_json (nodesToDict (dictToNodes (Some flat_node))) ! 0)) ''config'' \<noteq> None
   \<and> nodes_json (nodesToDict (dictToNodes (Some flat_node))) \<noteq> flat_node
   \<and> fst (editor_named_node ! 0) = nid (snd (editor_named_node ! 0))
   \<and> ntype (snd (editor_named_node ! 0)) = JStr ''llmNode''
   \<and> ntype (snd (nodes_json (nodesToDict (dictToNodes (Some editor_named_node))) ! 0))
       = JStr ''llmEngine''
   \<and> nodes_json (nodesToDict (dictToNodes (Some editor_named_node))) \<noteq> editor_named_node
   \<and> fst (bare_edge ! 0) = eid (snd (bare_edge ! 0))
   \<and> etype (snd (bare_edge ! 0)) = JUndefined
   \<and> etype (snd (edges_json (edgesToDict (dictToEdges (Some bare_edge))) ! 0))
       = JStr ''smoothstep''
   \<and> sourceHandle (snd (edges_json (edgesToDict (dictToEdges (Some bare_edge))) ! 0)) = JNull
   \<and> edges_json (edgesToDict (dictToEdges (Some bare_edge))) \<noteq> bare_edge
   \<and> distinct (map fst proto_node) \<and> list_all normal_wire_node proto_node
   \<and> nodes_json (nodesToDict (dictToNodes (Some proto_node))) = []
   \<and> nodes_json (nodesToDict (dictToNodes (Some proto_node))) \<noteq> proto_node"
proof -
  have a: "distinct (map fst flat_node)" "fst (flat_node ! 0) = nid (snd (flat_node ! 0))"
      "data (snd (flat_node ! 0)) ''config'' = None"
    by (simp_all add: flat_node_def)
  have a': "data (snd (nodes_json (nodesToDict (dictToNodes (Some flat_node))) ! 0)) ''config''
      \<noteq> None"
    by (simp add: flat_node_def wire_defs)
  have a'': "nodes_json (nodesToDict (dictToNodes (Some flat_node))) \<noteq> flat_node"
  proof
    assume "nodes_json (nodesToDict (dictToNodes (Some flat_node))) = flat_node"
    with a' have "data (snd (flat_node ! 0)) ''config'' \<noteq> None"
      by simp
    with a(3) show False
      by simp
  qed
  have b: "fst (editor_named_node ! 0) = nid (snd (editor_named_node ! 0))"
      "ntype (snd (editor_named_node ! 0)) = JStr ''llmNode''"
    by (simp_all add: editor_named_node_def)
  have b': "ntype (snd (nodes_json (nodesToDict (dictToNodes (Some editor_named_node))) ! 0))
      = JStr ''llmEngine''"
    by (simp add: editor_named_node_def wire_defs)
  have b'': "nodes_json (nodesToDict (dictToNodes (Some editor_named_node)))
      \<noteq> editor_named_node"
  proof
    assume "nodes_json (nodesToDict (dictToNodes (Some editor_named_node))) = editor_named_node"
    with b' have "ntype (snd (editor_named_node ! 0)) = JStr ''llmEngine''"
      by simp
    with b(2) show False
      by simp
  qed
  have c: "fst (bare_edge ! 0) = eid (snd (bare_edge ! 0))"
      "etype (snd (bare_edge ! 0)) = JUndefined"
    by (simp_all add: bare_edge_def)
  have c': "etype (snd (edges_json (edgesToDict (dictToEdges (Some bare_edge))) ! 0))
      = JStr ''smoothstep''"
      "sourceHandle (snd (edges_json (edgesToDict (dictToEdges (Some bare_edge))) ! 0)) = JNull"
    by (simp_all add: bare_edge_def wire_defs)
  have c'': "edges_json (edgesToDict (dictToEdges (Some bare_edge))) \<noteq> bare_edge"
  proof
    assume "edges_json (edgesToDict (dictToEdges (Some bare_edge))) = bare_edge"
    with c'(1) have "etype (snd (bare_edge ! 0)) = JStr ''smoothstep''"
      by simp
    with c(2) show False
      by simp
  qed
  have d: "distinct (map fst proto_node)" "list_all normal_wire_node proto_node"
    by (simp_all add: proto_node_def normal_wire_node_def wire_defs)
  have d': "nodes_json (nodesToDict (dictToNodes (Some proto_node))) = []"
    by (simp add: proto_node_def wire_defs)
  have d'': "nodes_json (nodesToDict (dictToNodes (Some proto_node))) \<noteq> proto_node"
    unfolding d' by (simp add: proto_node_def)
  from a a' a'' b b' b'' c c' c'' d d' d'' show ?thesis by blast
qed

end
